theory Spec2Isabelle
  imports Complex_Main "HOL-Library.Sublist"
begin

section \<open>Data model\<close>

text \<open>
  The models of \<^verbatim>\<open>models/User.js\<close> and \<^verbatim>\<open>models/Issue.js\<close>. A Mongo ObjectId is
  represented by its string form, and every identifier is taken to be a well-formed one
  (\<^verbatim>\<open>findById\<close> of an ill-formed identifier throws a cast error instead of finding
  nothing). JavaScript Numbers are modelled as exact reals, extended with NaN where the
  source can produce it. Timestamps are milliseconds. The string functions of the language
  whose result depends on the Unicode tables (\<^verbatim>\<open>toLowerCase\<close>, and \<^verbatim>\<open>trim\<close> as applied
  by the schema) and the regular-expression engine are parameters of the definitions that
  use them.
\<close>

type_synonym objectId = string

record skill =
  name :: string
  level :: string
  verified :: bool

record user =
  employeeId :: string
  firstName :: string
  lastName :: string
  department :: string
  skills :: "skill list"
  rating_average :: real
  contributions_issuesResolved :: real
  contributions_points :: real
  contributions_totalTimeHelped :: real
  availability :: string
  lastActive :: int
  isActive :: bool

datatype status = Open | Assigned | In_progress | Resolved | Closed

record resolution =
  solution :: "string option"
  resolvedBy :: "objectId option"
  resolvedAt :: "int option"
  timeSpent :: real

record issue =
  title :: string
  category :: string
  priority :: string
  status :: status
  postedBy :: objectId
  assignedTo :: "objectId option"
  requiredSkills :: "string list"
  resolution :: resolution
  upvotes :: "objectId list"
  downvotes :: "objectId list"

text \<open>The issue collection: \<^verbatim>\<open>Issue.findById\<close> is the lookup, \<^verbatim>\<open>issue.save()\<close> the update.\<close>

type_synonym issues = "objectId \<rightharpoonup> issue"

text \<open>An Express response: the success body, or a status code with its message.\<close>

datatype 'a response = Success 'a | Failure nat string

text \<open>Exceptions, as values.\<close>

datatype error = TypeError | SyntaxError | DocumentNotFoundError

section \<open>Voting (\<^verbatim>\<open>models/Issue.js\<close>, \<^verbatim>\<open>voteIssue\<close>)\<close>

definition voteCount :: "issue \<Rightarrow> int" where
  "voteCount i = int (length (upvotes i)) - int (length (downvotes i))"

text \<open>\<^verbatim>\<open>includes\<close> on a Mongoose array of ObjectIds compares the identifiers by value.\<close>

definition canVote :: "issue \<Rightarrow> objectId \<Rightarrow> bool" where
  "canVote i userId \<longleftrightarrow> userId \<notin> set (upvotes i) \<and> userId \<notin> set (downvotes i)"

text \<open>\<^verbatim>\<open>addUpvote\<close> and \<^verbatim>\<open>addDownvote\<close> mutate the document and return whether they did.\<close>

definition addUpvote :: "issue \<Rightarrow> objectId \<Rightarrow> bool \<times> issue" where
  "addUpvote i userId =
     (if canVote i userId then (True, i\<lparr>upvotes := upvotes i @ [userId]\<rparr>) else (False, i))"

definition addDownvote :: "issue \<Rightarrow> objectId \<Rightarrow> bool \<times> issue" where
  "addDownvote i userId =
     (if canVote i userId then (True, i\<lparr>downvotes := downvotes i @ [userId]\<rparr>) else (False, i))"

record vote_data =
  vd_voteCount :: int
  vd_upvotes :: nat
  vd_downvotes :: nat

text \<open>
  \<^verbatim>\<open>voteIssue\<close> awaits twice, for \<^verbatim>\<open>Issue.findById\<close> and for \<^verbatim>\<open>issue.save\<close>, and between
  the two other requests can run. A request is therefore a value with a state:
  \<open>Vote_pending\<close> before the read, \<open>Vote_loaded\<close> with the document it read, and
  \<open>Vote_done\<close> with its response (or the exception handed to \<^verbatim>\<open>asyncHandler\<close>).
  \<open>v_issue\<close> is \<^verbatim>\<open>req.params.id\<close>, \<open>v_user\<close> is \<^verbatim>\<open>req.user._id\<close> and \<open>v_type\<close> is
  \<^verbatim>\<open>req.body.voteType\<close>.
\<close>

datatype vote_state = Vote_pending | Vote_loaded "issue option"
  | Vote_done "error + vote_data response"

record vote_request =
  v_issue :: objectId
  v_user :: objectId
  v_type :: string
  v_state :: vote_state

text \<open>
  \<^verbatim>\<open>issue.save()\<close> after a \<^verbatim>\<open>push\<close>: the identifier is appended to the stored array,
  whatever it holds by then; the save fails if the stored issue is gone.
\<close>

definition save_vote :: "issues \<Rightarrow> objectId \<Rightarrow> string \<Rightarrow> objectId \<Rightarrow> issues option" where
  "save_vote db iid voteType uid =
     (case db iid of
        None \<Rightarrow> None
      | Some cur \<Rightarrow>
          Some (db(iid \<mapsto> (if voteType = ''upvote'' then cur\<lparr>upvotes := upvotes cur @ [uid]\<rparr>
                             else cur\<lparr>downvotes := downvotes cur @ [uid]\<rparr>))))"

text \<open>One step of a request: the validation and the read, then the vote on the document
  that was read and the save. The counts of the response are those of that document.\<close>

definition vote_step :: "issues \<Rightarrow> vote_request \<Rightarrow> issues \<times> vote_request" where
  "vote_step db r =
     (case v_state r of
        Vote_pending \<Rightarrow>
          if v_type r \<notin> set [''upvote'', ''downvote'']
          then (db, r\<lparr>v_state := Vote_done (Inr (Failure 400 ''Invalid vote type''))\<rparr>)
          else (db, r\<lparr>v_state := Vote_loaded (db (v_issue r))\<rparr>)
      | Vote_loaded None \<Rightarrow> (db, r\<lparr>v_state := Vote_done (Inr (Failure 404 ''Issue not found''))\<rparr>)
      | Vote_loaded (Some i) \<Rightarrow>
          (case (if v_type r = ''upvote'' then addUpvote i (v_user r)
                 else addDownvote i (v_user r)) of
             (success, i') \<Rightarrow>
               if \<not> success
               then (db, r\<lparr>v_state := Vote_done
                              (Inr (Failure 400 ''You have already voted on this issue''))\<rparr>)
               else (case save_vote db (v_issue r) (v_type r) (v_user r) of
                       None \<Rightarrow> (db, r\<lparr>v_state := Vote_done (Inl DocumentNotFoundError)\<rparr>)
                     | Some db' \<Rightarrow>
                         (db', r\<lparr>v_state := Vote_done
                                    (Inr (Success \<lparr>vd_voteCount = voteCount i',
                                                    vd_upvotes = length (upvotes i'),
                                                    vd_downvotes = length (downvotes i')\<rparr>))\<rparr>)))
      | Vote_done x \<Rightarrow> (db, r))"

definition vote_request :: "objectId \<Rightarrow> objectId \<Rightarrow> string \<Rightarrow> vote_request" where
  "vote_request iid uid voteType =
     \<lparr>v_issue = iid, v_user = uid, v_type = voteType, v_state = Vote_pending\<rparr>"

text \<open>A request handled with no other request in between.\<close>

definition voteIssue :: "issues \<Rightarrow> objectId \<Rightarrow> objectId \<Rightarrow> string \<Rightarrow> issues \<times> vote_request" where
  "voteIssue db iid uid voteType =
     (case vote_step db (vote_request iid uid voteType) of (db', r') \<Rightarrow> vote_step db' r')"

text \<open>Two requests in flight: \<open>True\<close> lets the first take its next step, \<open>False\<close> the
  second.\<close>

fun run_votes :: "bool list \<Rightarrow> issues \<times> vote_request \<times> vote_request
                    \<Rightarrow> issues \<times> vote_request \<times> vote_request" where
  "run_votes [] c = c"
| "run_votes (b # bs) (db, ra, rb) =
     (if b then (case vote_step db ra of (db', ra') \<Rightarrow> run_votes bs (db', ra', rb))
      else (case vote_step db rb of (db', rb') \<Rightarrow> run_votes bs (db', ra, rb')))"

section \<open>Presence registry (\<^verbatim>\<open>SocketService\<close>)\<close>

record socket =
  sid :: string
  userId :: objectId
  suser :: user

text \<open>The two maps of the service: \<^verbatim>\<open>connectedUsers\<close> (userId to socket) and
  \<^verbatim>\<open>userSockets\<close> (socket id to userId).\<close>

record service =
  connectedUsers :: "objectId \<rightharpoonup> socket"
  userSockets :: "string \<rightharpoonup> objectId"

definition new_service :: service where
  "new_service = \<lparr>connectedUsers = Map.empty, userSockets = Map.empty\<rparr>"

text \<open>
  The registry part of the \<^verbatim>\<open>connection\<close> callback of \<^verbatim>\<open>setupEventHandlers\<close> and of
  \<^verbatim>\<open>handleDisconnect\<close>. Both also record the user's last activity in the user
  collection, and the callback joins the rooms of the user; neither touches the two maps.
\<close>

definition onConnection :: "service \<Rightarrow> socket \<Rightarrow> service" where
  "onConnection svc s =
     svc\<lparr>connectedUsers := (connectedUsers svc)(userId s \<mapsto> s),
         userSockets := (userSockets svc)(sid s \<mapsto> userId s)\<rparr>"

definition handleDisconnect :: "service \<Rightarrow> socket \<Rightarrow> service" where
  "handleDisconnect svc s =
     svc\<lparr>connectedUsers := (connectedUsers svc)(userId s := None),
         userSockets := (userSockets svc)(sid s := None)\<rparr>"

definition isUserOnline :: "service \<Rightarrow> objectId \<Rightarrow> bool" where
  "isUserOnline svc uid \<longleftrightarrow> connectedUsers svc uid \<noteq> None"

section \<open>Helper scoring (\<^verbatim>\<open>calculateHelperScore\<close> in \<^verbatim>\<open>models/User.js\<close>)\<close>

text \<open>
  A JavaScript Number: a real, or NaN. The only division of the method whose divisor can
  be zero is \<^verbatim>\<open>matchingSkills.length / requiredSkills.length\<close>, and there the dividend
  is zero as well, so no infinity arises. NaN propagates through \<^verbatim>\<open>+\<close>, \<^verbatim>\<open>-\<close> and
  \<^verbatim>\<open>*\<close>, and it is the product of a number with a value that is no number.
\<close>

datatype number = NaN | Num real

fun nadd :: "number \<Rightarrow> number \<Rightarrow> number" where
  "nadd (Num a) (Num b) = Num (a + b)"
| "nadd _ _ = NaN"

fun nmul :: "number \<Rightarrow> number \<Rightarrow> number" where
  "nmul (Num a) (Num b) = Num (a * b)"
| "nmul _ _ = NaN"

text \<open>\<^verbatim>\<open>s.includes(d)\<close>: \<open>d\<close> occurs in \<open>s\<close> as a contiguous substring.\<close>

definition str_includes :: "string \<Rightarrow> string \<Rightarrow> bool" where
  "str_includes s d = sublist d s"

text \<open>In the definitions below, \<open>toLowerCase\<close> is \<^verbatim>\<open>String.prototype.toLowerCase\<close>.\<close>

definition userSkillNames :: "(string \<Rightarrow> string) \<Rightarrow> user \<Rightarrow> string list" where
  "userSkillNames toLowerCase u = map (\<lambda>skill. toLowerCase (name skill)) (skills u)"

definition matchingSkills :: "(string \<Rightarrow> string) \<Rightarrow> user \<Rightarrow> string list \<Rightarrow> string list" where
  "matchingSkills toLowerCase u req =
     filter (\<lambda>skill. toLowerCase skill \<in> set (userSkillNames toLowerCase u)) req"

definition skillScore :: "(string \<Rightarrow> string) \<Rightarrow> user \<Rightarrow> string list \<Rightarrow> number" where
  "skillScore toLowerCase u req =
     (if length req = 0 then NaN
      else Num (real (length (matchingSkills toLowerCase u req)) / real (length req)))"

definition pointsScore :: "user \<Rightarrow> real" where
  "pointsScore u = min (contributions_points u / 100) 1"

definition resolvedScore :: "user \<Rightarrow> real" where
  "resolvedScore u = min (contributions_issuesResolved u / 10) 1"

definition ratingScore :: "user \<Rightarrow> real" where
  "ratingScore u = rating_average u / 5"

definition historyScore :: "user \<Rightarrow> real" where
  "historyScore u = pointsScore u * 0.4 + resolvedScore u * 0.3 + ratingScore u * 0.3"

text \<open>\<open>now\<close> is the value of \<^verbatim>\<open>Date.now()\<close>.\<close>

definition daysSinceLastActive :: "int \<Rightarrow> user \<Rightarrow> real" where
  "daysSinceLastActive now u = real_of_int (now - lastActive u) / (1000 * 60 * 60 * 24)"

definition recencyScore :: "int \<Rightarrow> user \<Rightarrow> real" where
  "recencyScore now u = max 0 (1 - daysSinceLastActive now u / 30)"

definition availabilityScore :: "user \<Rightarrow> real" where
  "availabilityScore u =
     (if availability u = ''available'' then 1 else if availability u = ''busy'' then 0.5 else 0)"

definition engagementScore :: "int \<Rightarrow> user \<Rightarrow> real" where
  "engagementScore now u = (recencyScore now u + availabilityScore u) / 2"

text \<open>
  Reading \<^verbatim>\<open>obj[key]\<close> of an object literal gives the value of its own key, or else the
  member of that name that every object inherits from \<^verbatim>\<open>Object.prototype\<close>, or else
  \<^verbatim>\<open>undefined\<close>. The inherited members are functions, listed here with their
  \<^verbatim>\<open>length\<close>, and under \<^verbatim>\<open>__proto__\<close> the prototype object itself, which has no
  \<^verbatim>\<open>length\<close>.
\<close>

datatype member = Function nat | Object

definition object_prototype :: "(string \<times> member) list" where
  "object_prototype =
     [(''constructor'', Function 1), (''__defineGetter__'', Function 2),
      (''__defineSetter__'', Function 2), (''hasOwnProperty'', Function 1),
      (''__lookupGetter__'', Function 1), (''__lookupSetter__'', Function 1),
      (''isPrototypeOf'', Function 1), (''propertyIsEnumerable'', Function 1),
      (''toString'', Function 0), (''valueOf'', Function 0), (''__proto__'', Object),
      (''toLocaleString'', Function 0)]"

definition inherited :: "string \<Rightarrow> bool" where
  "inherited k \<longleftrightarrow> k \<in> set (map fst object_prototype)"

datatype 'a property = Own 'a | Inherited member | Absent

definition property :: "(string \<times> 'a) list \<Rightarrow> string \<Rightarrow> 'a property" where
  "property obj k =
     (case map_of obj k of
        Some v \<Rightarrow> Own v
      | None \<Rightarrow> (case map_of object_prototype k of Some m \<Rightarrow> Inherited m | None \<Rightarrow> Absent))"

definition categoryToDepartments :: "(string \<times> string list) list" where
  "categoryToDepartments =
     [(''hardware'', [''it'', ''infrastructure'', ''helpdesk'', ''support'']),
      (''software'', [''it'', ''engineering'', ''development'', ''helpdesk'']),
      (''network'', [''it'', ''network'', ''infrastructure'', ''security'']),
      (''printer'', [''it'', ''helpdesk'', ''support'']),
      (''email'', [''it'', ''helpdesk'', ''support'']),
      (''access'', [''it'', ''security'', ''helpdesk'']),
      (''other'', [])]"

text \<open>
  \<^verbatim>\<open>domainList = categoryToDepartments[category] || []\<close> and the score computed from it.
  An array is truthy, so only \<^verbatim>\<open>undefined\<close> is replaced by the empty array. An inherited
  function of length 0 passes the test \<^verbatim>\<open>domainList.length === 0\<close>; any other inherited
  member fails it and has no method \<^verbatim>\<open>some\<close>, so the call throws a TypeError.
\<close>

definition domainScore :: "(string \<Rightarrow> string) \<Rightarrow> user \<Rightarrow> string \<Rightarrow> error + real" where
  "domainScore toLowerCase u cat =
     (let dept = toLowerCase (department u) in
      case property categoryToDepartments cat of
        Own domainList \<Rightarrow>
          Inr (if length domainList = 0 then 0.2
               else if list_ex (\<lambda>d. str_includes dept d) domainList then 1 else 0)
      | Absent \<Rightarrow> Inr 0.2
      | Inherited (Function n) \<Rightarrow> if n = 0 then Inr 0.2 else Inl TypeError
      | Inherited Object \<Rightarrow> Inl TypeError)"

definition priorityMultiplierMap :: "(string \<times> real) list" where
  "priorityMultiplierMap = [(''urgent'', 1.2), (''high'', 1.1), (''medium'', 1.0), (''low'', 0.95)]"

text \<open>
  \<^verbatim>\<open>priorityMultiplierMap[priority] || 1.0\<close> as the factor of the final product: a missing
  key or a zero gives 1; an inherited member is truthy and is no number, so that the
  product with it is NaN.
\<close>

definition priorityMultiplier :: "string \<Rightarrow> number" where
  "priorityMultiplier pri =
     (case property priorityMultiplierMap pri of
        Own m \<Rightarrow> if m = 0 then Num 1.0 else Num m
      | Absent \<Rightarrow> Num 1.0
      | Inherited m \<Rightarrow> NaN)"

definition baseScore ::
  "(string \<Rightarrow> string) \<Rightarrow> int \<Rightarrow> user \<Rightarrow> string list \<Rightarrow> string \<Rightarrow> error + number" where
  "baseScore toLowerCase now u req cat =
     (case domainScore toLowerCase u cat of
        Inl e \<Rightarrow> Inl e
      | Inr d \<Rightarrow>
          Inr (nadd (nadd (nadd (nmul (skillScore toLowerCase u req) (Num 0.35))
                                (Num (historyScore u * 0.30)))
                          (Num (d * 0.20)))
                    (Num (engagementScore now u * 0.15))))"

text \<open>
  The parameters \<^verbatim>\<open>category = 'other'\<close> and \<^verbatim>\<open>priority = 'medium'\<close> are optional:
  \<open>None\<close> is the omitted argument. The result is the returned number, or the exception
  the method throws.
\<close>

definition calculateHelperScore ::
  "(string \<Rightarrow> string) \<Rightarrow> int \<Rightarrow> user \<Rightarrow> string list \<Rightarrow> string option \<Rightarrow> string option
     \<Rightarrow> error + number" where
  "calculateHelperScore toLowerCase now u req cat pri =
     (let cat = (case cat of None \<Rightarrow> ''other'' | Some c \<Rightarrow> c);
          pri = (case pri of None \<Rightarrow> ''medium'' | Some p \<Rightarrow> p)
      in case baseScore toLowerCase now u req cat of
           Inl e \<Rightarrow> Inl e
         | Inr b \<Rightarrow> Inr (nmul b (priorityMultiplier pri)))"

subsection \<open>The scoring formula in the words of the specification\<close>

text \<open>
  Letter case on ASCII strings, where \<^verbatim>\<open>toLowerCase\<close> replaces the letters A to Z by a to
  z and changes nothing else: \<open>folds_ascii\<close> says so of a function. Two strings are
  \<open>ci_equal\<close> when they have the same length and agree position by position up to the
  case of a letter.
\<close>

definition ascii :: "string \<Rightarrow> bool" where
  "ascii s = list_all (\<lambda>c. \<not> digit7 c) s"

definition ascii_lower_char :: "char \<Rightarrow> char" where
  "ascii_lower_char c =
     (case map_of (zip ''ABCDEFGHIJKLMNOPQRSTUVWXYZ'' ''abcdefghijklmnopqrstuvwxyz'') c of
        Some l \<Rightarrow> l | None \<Rightarrow> c)"

definition ascii_lower :: "string \<Rightarrow> string" where
  "ascii_lower s = map ascii_lower_char s"

definition folds_ascii :: "(string \<Rightarrow> string) \<Rightarrow> bool" where
  "folds_ascii toLowerCase \<longleftrightarrow> (\<forall>s. ascii s \<longrightarrow> toLowerCase s = ascii_lower s)"

definition upper_of :: "char \<Rightarrow> char option" where
  "upper_of c = map_of (zip ''abcdefghijklmnopqrstuvwxyz'' ''ABCDEFGHIJKLMNOPQRSTUVWXYZ'') c"

definition ci_char :: "char \<Rightarrow> char \<Rightarrow> bool" where
  "ci_char a b \<longleftrightarrow> a = b \<or> upper_of a = Some b \<or> upper_of b = Some a"

definition ci_equal :: "string \<Rightarrow> string \<Rightarrow> bool" where
  "ci_equal r s = list_all2 ci_char r s"

definition spec_matched :: "(string \<Rightarrow> string) \<Rightarrow> user \<Rightarrow> string list \<Rightarrow> nat" where
  "spec_matched toLowerCase u req =
     card {k. k < length req \<and>
              (\<exists>s \<in> set (skills u). toLowerCase (name s) = toLowerCase (req ! k))}"

definition spec_matched_ascii :: "user \<Rightarrow> string list \<Rightarrow> nat" where
  "spec_matched_ascii u req =
     card {k. k < length req \<and> (\<exists>s \<in> set (skills u). ci_equal (name s) (req ! k))}"

definition spec_skill :: "(string \<Rightarrow> string) \<Rightarrow> user \<Rightarrow> string list \<Rightarrow> real" where
  "spec_skill toLowerCase u req =
     real (spec_matched toLowerCase u req) / real (length req)"

definition spec_history :: "user \<Rightarrow> real" where
  "spec_history u =
     0.4 * min (contributions_points u / 100) 1
     + 0.3 * min (contributions_issuesResolved u / 10) 1
     + 0.3 * (rating_average u / 5)"

definition spec_recency :: "int \<Rightarrow> user \<Rightarrow> real" where
  "spec_recency now u = max 0 (1 - (real_of_int (now - lastActive u) / 86400000) / 30)"

definition spec_availability :: "string \<Rightarrow> real" where
  "spec_availability a = (if a = ''available'' then 1 else if a = ''busy'' then 1 / 2 else 0)"

definition spec_engagement :: "int \<Rightarrow> user \<Rightarrow> real" where
  "spec_engagement now u = (spec_recency now u + spec_availability (availability u)) / 2"

definition spec_keywords :: "string \<Rightarrow> string set" where
  "spec_keywords cat =
     (if cat = ''hardware'' then {''it'', ''infrastructure'', ''helpdesk'', ''support''}
      else if cat = ''software'' then {''it'', ''engineering'', ''development'', ''helpdesk''}
      else if cat = ''network'' then {''it'', ''network'', ''infrastructure'', ''security''}
      else if cat = ''printer'' \<or> cat = ''email'' then {''it'', ''helpdesk'', ''support''}
      else if cat = ''access'' then {''it'', ''security'', ''helpdesk''}
      else {})"

definition spec_domain :: "(string \<Rightarrow> string) \<Rightarrow> user \<Rightarrow> string \<Rightarrow> real" where
  "spec_domain toLowerCase u cat =
     (if spec_keywords cat = {} then 0.2
      else if \<exists>k \<in> spec_keywords cat. \<exists>p q. toLowerCase (department u) = p @ k @ q then 1
      else 0)"

definition spec_priority_factor :: "string \<Rightarrow> real" where
  "spec_priority_factor pri =
     (if pri = ''urgent'' then 1.2 else if pri = ''high'' then 1.1
      else if pri = ''medium'' then 1.0 else if pri = ''low'' then 0.95 else 1.0)"

section \<open>Helper suggestions (\<^verbatim>\<open>getHelperSuggestions\<close>)\<close>

text \<open>
  The regular-expression engine is a parameter: \<open>RegExp p\<close> is \<^verbatim>\<open>new RegExp(p, 'i')\<close>,
  \<open>None\<close> when the constructor throws a SyntaxError, else the test of the expression on
  a string. \<^verbatim>\<open>User.find\<close> with \<^verbatim>\<open>'skills.name': { $in: regexes }\<close> selects the active users
  one of whose skill names matches one of the expressions, in the order of the collection.
\<close>

type_synonym regexp = "string \<Rightarrow> (string \<Rightarrow> bool) option"

fun compile_all :: "regexp \<Rightarrow> string list \<Rightarrow> error + (string \<Rightarrow> bool) list" where
  "compile_all RegExp [] = Inr []"
| "compile_all RegExp (p # ps) =
     (case RegExp p of
        None \<Rightarrow> Inl SyntaxError
      | Some r \<Rightarrow> (case compile_all RegExp ps of Inl e \<Rightarrow> Inl e | Inr rs \<Rightarrow> Inr (r # rs)))"

definition find_users :: "user list \<Rightarrow> (string \<Rightarrow> bool) list \<Rightarrow> user list" where
  "find_users users regexes =
     filter (\<lambda>u. isActive u \<and> list_ex (\<lambda>s. list_ex (\<lambda>r. r (name s)) regexes) (skills u)) users"

definition potentialHelpers :: "regexp \<Rightarrow> user list \<Rightarrow> issue \<Rightarrow> error + user list" where
  "potentialHelpers RegExp users i =
     (case compile_all RegExp (requiredSkills i) of
        Inl e \<Rightarrow> Inl e
      | Inr regexes \<Rightarrow> Inr (find_users users regexes))"

fun nsub :: "number \<Rightarrow> number \<Rightarrow> number" where
  "nsub (Num a) (Num b) = Num (a - b)"
| "nsub _ _ = NaN"

fun positive :: "number \<Rightarrow> bool" where
  "positive (Num a) = (0 < a)"
| "positive NaN = False"

text \<open>
  \<^verbatim>\<open>Array.prototype.sort\<close> with a comparison function, as a stable insertion sort: an
  element moves behind another one exactly when the comparison of the two is positive.
\<close>

fun insert_cmp :: "('a \<Rightarrow> 'a \<Rightarrow> number) \<Rightarrow> 'a \<Rightarrow> 'a list \<Rightarrow> 'a list" where
  "insert_cmp cmp x [] = [x]"
| "insert_cmp cmp x (y # ys) =
     (if positive (cmp x y) then y # insert_cmp cmp x ys else x # y # ys)"

definition sort_cmp :: "('a \<Rightarrow> 'a \<Rightarrow> number) \<Rightarrow> 'a list \<Rightarrow> 'a list" where
  "sort_cmp cmp xs = foldr (insert_cmp cmp) xs []"

record scored_helper =
  helper :: user
  helperScore :: number

record issue_summary =
  is_id :: objectId
  is_title :: string
  is_requiredSkills :: "string list"

record suggestions =
  sg_issue :: issue_summary
  sg_helpers :: "scored_helper list"

text \<open>
  \<^verbatim>\<open>potentialHelpers.map(helper => ...)\<close>: every helper is scored with the required skills
  as the only argument; an exception of the scoring ends the whole map.
\<close>

fun helpersWithScores ::
  "(string \<Rightarrow> string) \<Rightarrow> int \<Rightarrow> issue \<Rightarrow> user list \<Rightarrow> error + scored_helper list" where
  "helpersWithScores toLowerCase now i [] = Inr []"
| "helpersWithScores toLowerCase now i (h # hs) =
     (case calculateHelperScore toLowerCase now h (requiredSkills i) None None of
        Inl e \<Rightarrow> Inl e
      | Inr score \<Rightarrow>
          (case helpersWithScores toLowerCase now i hs of
             Inl e \<Rightarrow> Inl e
           | Inr rest \<Rightarrow> Inr (\<lparr>helper = h, helperScore = score\<rparr> # rest)))"

text \<open>The comparison function \<^verbatim>\<open>(a, b) => b.helperScore - a.helperScore\<close>.\<close>

definition by_score_desc :: "scored_helper \<Rightarrow> scored_helper \<Rightarrow> number" where
  "by_score_desc a b = nsub (helperScore b) (helperScore a)"

text \<open>An exception is handed to \<^verbatim>\<open>asyncHandler\<close>, whose code is not part of the sources:
  it is the \<open>Inl\<close> result.\<close>

definition getHelperSuggestions ::
  "regexp \<Rightarrow> (string \<Rightarrow> string) \<Rightarrow> int \<Rightarrow> issues \<Rightarrow> user list \<Rightarrow> objectId
     \<Rightarrow> error + suggestions response" where
  "getHelperSuggestions RegExp toLowerCase now db users iid =
     (case db iid of
        None \<Rightarrow> Inr (Failure 404 ''Issue not found'')
      | Some i \<Rightarrow>
          (case potentialHelpers RegExp users i of
             Inl e \<Rightarrow> Inl e
           | Inr hs \<Rightarrow>
               (case helpersWithScores toLowerCase now i hs of
                  Inl e \<Rightarrow> Inl e
                | Inr scored \<Rightarrow>
                    (let sorted = sort_cmp by_score_desc scored;
                         topHelpers = take 10 sorted
                     in Inr (Success \<lparr>sg_issue = \<lparr>is_id = iid, is_title = title i,
                                                   is_requiredSkills = requiredSkills i\<rparr>,
                                       sg_helpers = topHelpers\<rparr>)))))"

text \<open>The order of a ranking: both scores are numbers and the first is not the smaller.\<close>

definition score_ge :: "scored_helper \<Rightarrow> scored_helper \<Rightarrow> bool" where
  "score_ge a b =
     (case helperScore a of NaN \<Rightarrow> False
      | Num x \<Rightarrow> (case helperScore b of NaN \<Rightarrow> False | Num y \<Rightarrow> y \<le> x))"

section \<open>Issue mutations (\<^verbatim>\<open>assignIssue\<close>, \<^verbatim>\<open>resolve\<close>, \<^verbatim>\<open>resolveIssue\<close>)\<close>

text \<open>The user collection as read by \<^verbatim>\<open>User.findById\<close>.\<close>

type_synonym users = "objectId \<rightharpoonup> user"

text \<open>
  \<^verbatim>\<open>assignIssue\<close>: \<open>iid\<close> is \<^verbatim>\<open>req.params.id\<close>, \<open>uid\<close> is \<^verbatim>\<open>req.user._id\<close> and \<open>body\<close> is
  \<^verbatim>\<open>req.body.assignedTo\<close>, \<open>None\<close> when the field is missing; the empty string is falsy.
  This request and \<^verbatim>\<open>resolveIssue\<close> below are taken on their own: nothing else writes
  the issue between their read and their save.
\<close>

definition assignIssue ::
  "issues \<Rightarrow> users \<Rightarrow> objectId \<Rightarrow> objectId \<Rightarrow> objectId option \<Rightarrow> issue response \<times> issues" where
  "assignIssue db udb iid uid body =
     (case body of
        None \<Rightarrow> (Failure 400 ''Helper ID is required'', db)
      | Some helperId \<Rightarrow>
          if helperId = [] then (Failure 400 ''Helper ID is required'', db)
          else (case db iid of
            None \<Rightarrow> (Failure 404 ''Issue not found'', db)
          | Some i \<Rightarrow>
              if postedBy i \<noteq> uid then (Failure 403 ''Not authorized to assign this issue'', db)
              else (case udb helperId of
                None \<Rightarrow> (Failure 404 ''Helper not found'', db)
              | Some h \<Rightarrow>
                  (let i' = i\<lparr>assignedTo := Some helperId, status := Assigned\<rparr>
                   in (Success i', db(iid \<mapsto> i'))))))"

text \<open>
  The method \<^verbatim>\<open>resolve\<close> of an issue; \<^verbatim>\<open>timeSpent || 0\<close> is 0 for a missing value. The
  schema declares \<^verbatim>\<open>resolution.solution\<close> with \<^verbatim>\<open>trim: true\<close>, so the assignment stores the
  trimmed text; \<open>trim\<close> is \<^verbatim>\<open>String.prototype.trim\<close>.
\<close>

definition resolve ::
  "(string \<Rightarrow> string) \<Rightarrow> int \<Rightarrow> issue \<Rightarrow> objectId \<Rightarrow> string \<Rightarrow> real option \<Rightarrow> issue" where
  "resolve trim now i who sol spent =
     i\<lparr>status := Resolved,
       resolution := (resolution i)\<lparr>resolvedBy := Some who, solution := Some (trim sol),
                        resolvedAt := Some now,
                        timeSpent := (case spent of None \<Rightarrow> 0 | Some t \<Rightarrow> t)\<rparr>\<rparr>"

text \<open>
  \<^verbatim>\<open>resolveIssue\<close>: reading \<^verbatim>\<open>issue.assignedTo.toString()\<close> of an unassigned issue, or a
  field of a user that is not found, throws a TypeError.
\<close>

definition resolveIssue ::
  "(string \<Rightarrow> string) \<Rightarrow> int \<Rightarrow> issues \<Rightarrow> users \<Rightarrow> objectId \<Rightarrow> objectId \<Rightarrow> string option
     \<Rightarrow> real option \<Rightarrow> error + (issue response \<times> issues \<times> users)" where
  "resolveIssue trim now db udb iid uid sol spent =
     (case sol of
        None \<Rightarrow> Inr (Failure 400 ''Solution is required'', db, udb)
      | Some s \<Rightarrow>
          if s = [] then Inr (Failure 400 ''Solution is required'', db, udb)
          else (case db iid of
            None \<Rightarrow> Inr (Failure 404 ''Issue not found'', db, udb)
          | Some i \<Rightarrow>
              (case assignedTo i of
                 None \<Rightarrow> Inl TypeError
               | Some a \<Rightarrow>
                   if a \<noteq> uid then Inr (Failure 403 ''Not authorized to resolve this issue'', db, udb)
                   else (let i' = resolve trim now i uid s spent; db' = db(iid \<mapsto> i')
                         in case udb uid of
                              None \<Rightarrow> Inl TypeError
                            | Some h \<Rightarrow>
                                Inr (Success i', db',
                                     udb(uid \<mapsto> h\<lparr>contributions_issuesResolved :=
                                                      contributions_issuesResolved h + 1,
                                                    contributions_totalTimeHelped :=
                                                      contributions_totalTimeHelped h
                                                      + (case spent of None \<Rightarrow> 0 | Some t \<Rightarrow> t)\<rparr>))))))"

section \<open>Event dispatch (\<^verbatim>\<open>SocketService\<close>)\<close>

text \<open>The values a client can send as the payload of an event.\<close>

datatype jsval = Undefined | Null | JBool bool | JNum real | JStr string | JDate int
  | JObj "(string \<times> jsval) list"

fun nullish :: "jsval \<Rightarrow> bool" where
  "nullish Undefined = True"
| "nullish Null = True"
| "nullish _ = False"

fun truthy :: "jsval \<Rightarrow> bool" where
  "truthy Undefined = False"
| "truthy Null = False"
| "truthy (JBool b) = b"
| "truthy (JNum r) = (r \<noteq> 0)"
| "truthy (JStr s) = (s \<noteq> [])"
| "truthy _ = True"

text \<open>
  Reading a property of a value that is neither \<^verbatim>\<open>undefined\<close> nor \<^verbatim>\<open>null\<close>. The keys
  the handlers read are defined on objects only.
\<close>

fun get :: "jsval \<Rightarrow> string \<Rightarrow> jsval" where
  "get (JObj kvs) k = (case map_of kvs k of Some v \<Rightarrow> v | None \<Rightarrow> Undefined)"
| "get _ k = Undefined"

text \<open>\<^verbatim>\<open>note || null\<close>.\<close>

definition or_null :: "jsval \<Rightarrow> jsval" where
  "or_null v = (if truthy v then v else Null)"

text \<open>The decimal form of an index, for the keys of a spread string.\<close>

function decimal :: "nat \<Rightarrow> string" where
  "decimal n = (if n < 10 then [''0123456789'' ! n]
                else decimal (n div 10) @ [''0123456789'' ! (n mod 10)])"
  by pat_completeness auto
termination
  by (relation "measure id") auto

text \<open>\<^verbatim>\<open>{ ...v }\<close>: the own properties of \<open>v\<close>; a string spreads into its characters.
  \<open>set_prop\<close> is the property written after a spread: it replaces a property of that
  name where it stands, or is added at the end.\<close>

fun spread :: "jsval \<Rightarrow> (string \<times> jsval) list" where
  "spread (JObj kvs) = kvs"
| "spread (JStr s) = map (\<lambda>k. (decimal k, JStr [s ! k])) [0..<length s]"
| "spread _ = []"

definition set_prop :: "(string \<times> jsval) list \<Rightarrow> string \<Rightarrow> jsval \<Rightarrow> (string \<times> jsval) list" where
  "set_prop kvs k v =
     (if k \<in> set (map fst kvs) then map (\<lambda>kv. if fst kv = k then (k, v) else kv) kvs
      else kvs @ [(k, v)])"

text \<open>
  A room name \<^verbatim>\<open>user:${v}\<close>, \<^verbatim>\<open>department:${d}\<close> or \<^verbatim>\<open>issue:${v}\<close> is kept as its prefix
  and the value interpolated into it.
\<close>

datatype room = UserRoom jsval | DepartmentRoom string | IssueRoom jsval

text \<open>
  The receivers of an emit: \<^verbatim>\<open>this.io.to(room)\<close> (all members), \<^verbatim>\<open>socket.to(room)\<close>
  (all members but the socket with the given id) and \<^verbatim>\<open>socket.emit\<close> (that socket).
\<close>

datatype target = To room | Broadcast room string | Self string

record emit =
  em_target :: target
  em_event :: string
  em_data :: jsval

definition getFullName :: "user \<Rightarrow> string" where
  "getFullName u = firstName u @ '' '' @ lastName u"

definition actor :: "socket \<Rightarrow> jsval" where
  "actor s = JObj [(''id'', JStr (userId s)), (''name'', JStr (getFullName (suser s))),
                   (''employeeId'', JStr (employeeId (suser s)))]"

definition department_room :: "socket \<Rightarrow> room" where
  "department_room s = DepartmentRoom (department (suser s))"

text \<open>
  The handlers. Each starts by destructuring \<open>data\<close>, which throws a TypeError when
  \<open>data\<close> is \<^verbatim>\<open>undefined\<close> or \<^verbatim>\<open>null\<close>; \<open>now\<close> is the value of \<^verbatim>\<open>new Date()\<close>.
\<close>

definition handleIssueUpdate :: "int \<Rightarrow> socket \<Rightarrow> jsval \<Rightarrow> error + emit list" where
  "handleIssueUpdate now s data =
     (if nullish data then Inl TypeError
      else Inr [\<lparr>em_target = Broadcast (department_room s) (sid s), em_event = ''issue:updated'',
                 em_data = JObj [(''issueId'', get data ''issueId''),
                                 (''updates'', get data ''updates''),
                                 (''updatedBy'', actor s), (''timestamp'', JDate now)]\<rparr>])"

definition handleNewComment :: "int \<Rightarrow> socket \<Rightarrow> jsval \<Rightarrow> error + emit list" where
  "handleNewComment now s data =
     (if nullish data then Inl TypeError
      else Inr [\<lparr>em_target = To (IssueRoom (get data ''issueId'')), em_event = ''comment:added'',
                 em_data = JObj [(''issueId'', get data ''issueId''),
                                 (''comment'', JObj (set_prop (spread (get data ''comment''))
                                                              ''user'' (actor s))),
                                 (''timestamp'', JDate now)]\<rparr>])"

definition handleIssueAssignment :: "int \<Rightarrow> socket \<Rightarrow> jsval \<Rightarrow> error + emit list" where
  "handleIssueAssignment now s data =
     (if nullish data then Inl TypeError
      else Inr [\<lparr>em_target = To (UserRoom (get data ''assignedTo'')), em_event = ''issue:assigned'',
                 em_data = JObj [(''issueId'', get data ''issueId''),
                                 (''assignedBy'', actor s), (''timestamp'', JDate now)]\<rparr>])"

definition handleIssueResolution :: "int \<Rightarrow> socket \<Rightarrow> jsval \<Rightarrow> error + emit list" where
  "handleIssueResolution now s data =
     (if nullish data then Inl TypeError
      else Inr [\<lparr>em_target = Broadcast (department_room s) (sid s), em_event = ''issue:resolved'',
                 em_data = JObj [(''issueId'', get data ''issueId''),
                                 (''resolution'', get data ''resolution''),
                                 (''resolvedBy'', actor s), (''timestamp'', JDate now)]\<rparr>])"

definition handleAvailabilityUpdate :: "int \<Rightarrow> socket \<Rightarrow> jsval \<Rightarrow> error + emit list" where
  "handleAvailabilityUpdate now s data =
     (if nullish data then Inl TypeError
      else Inr [\<lparr>em_target = Broadcast (department_room s) (sid s),
                 em_event = ''availability:changed'',
                 em_data = JObj [(''userId'', JStr (userId s)),
                                 (''availability'', get data ''availability''),
                                 (''user'', actor s), (''timestamp'', JDate now)]\<rparr>])"

definition handlePrivateMessage :: "int \<Rightarrow> socket \<Rightarrow> jsval \<Rightarrow> error + emit list" where
  "handlePrivateMessage now s data =
     (if nullish data then Inl TypeError
      else Inr [\<lparr>em_target = To (UserRoom (get data ''recipientId'')),
                 em_event = ''message:received'',
                 em_data = JObj [(''sender'', actor s), (''message'', get data ''message''),
                                 (''issueId'', get data ''issueId''), (''timestamp'', JDate now)]\<rparr>,
                \<lparr>em_target = Self (sid s), em_event = ''message:sent'',
                 em_data = JObj [(''recipientId'', get data ''recipientId''),
                                 (''message'', get data ''message''),
                                 (''issueId'', get data ''issueId''), (''timestamp'', JDate now)]\<rparr>])"

definition handleHelpAsk :: "int \<Rightarrow> socket \<Rightarrow> jsval \<Rightarrow> error + emit list" where
  "handleHelpAsk now s data =
     (if nullish data then Inl TypeError
      else Inr [\<lparr>em_target = To (UserRoom (get data ''recipientId'')), em_event = ''help:request'',
                 em_data = JObj [(''from'', actor s), (''issueId'', get data ''issueId''),
                                 (''note'', or_null (get data ''note'')),
                                 (''timestamp'', JDate now)]\<rparr>,
                \<lparr>em_target = Self (sid s), em_event = ''help:asked'',
                 em_data = JObj [(''recipientId'', get data ''recipientId''),
                                 (''issueId'', get data ''issueId''), (''timestamp'', JDate now)]\<rparr>])"

definition handleTypingStart :: "socket \<Rightarrow> jsval \<Rightarrow> error + emit list" where
  "handleTypingStart s data =
     (if nullish data then Inl TypeError
      else Inr [\<lparr>em_target = To (UserRoom (get data ''recipientId'')), em_event = ''typing:started'',
                 em_data = JObj [(''userId'', JStr (userId s)),
                                 (''name'', JStr (getFullName (suser s)))]\<rparr>])"

definition handleTypingStop :: "socket \<Rightarrow> jsval \<Rightarrow> error + emit list" where
  "handleTypingStop s data =
     (if nullish data then Inl TypeError
      else Inr [\<lparr>em_target = To (UserRoom (get data ''recipientId'')), em_event = ''typing:stopped'',
                 em_data = JObj [(''userId'', JStr (userId s))]\<rparr>])"

subsection \<open>The help handshake (\<^verbatim>\<open>handleHelpRespond\<close>)\<close>

text \<open>
  The detached \<^verbatim>\<open>async\<close> block of \<^verbatim>\<open>handleHelpRespond\<close> is a task with two database
  operations, \<^verbatim>\<open>Issue.findById\<close> and \<^verbatim>\<open>issue.save\<close>; between the two, other tasks can
  run. \<open>Pending\<close> is the task before its read, \<open>Loaded\<close> holds the document it read, and
  \<open>Done b\<close> is the finished task: \<open>b\<close> tells whether it saved the assignment and sent
  the two \<^verbatim>\<open>issue:assigned\<close> events, or returned early (or had an exception swallowed by
  its \<^verbatim>\<open>catch\<close>).
\<close>

datatype task_state = Pending | Loaded "issue option" | Done bool

record task =
  t_responder :: socket
  t_toUserId :: jsval
  t_issueId :: jsval
  t_state :: task_state

text \<open>\<^verbatim>\<open>Issue.findById\<close> of a payload value: only a string can name a stored issue.\<close>

fun findById :: "issues \<Rightarrow> jsval \<Rightarrow> issue option" where
  "findById db (JStr s) = db s"
| "findById db _ = None"

text \<open>
  \<^verbatim>\<open>issue.postedBy.toString() !== toUserId.toString()\<close>: the call of \<^verbatim>\<open>toString\<close> throws
  on \<^verbatim>\<open>undefined\<close> and \<^verbatim>\<open>null\<close>, and the string form of a value that is not a string is
  no ObjectId.
\<close>

fun is_owner :: "issue \<Rightarrow> jsval \<Rightarrow> error + bool" where
  "is_owner i Undefined = Inl TypeError"
| "is_owner i Null = Inl TypeError"
| "is_owner i (JStr s) = Inr (postedBy i = s)"
| "is_owner i _ = Inr False"

text \<open>
  \<^verbatim>\<open>issue.save()\<close> after the two assignments writes the paths that were modified since
  the document was read, and only those: \<^verbatim>\<open>assignedTo\<close> if the assignment changed it,
  \<^verbatim>\<open>status\<close> likewise. They are written to the stored issue whatever its state is by
  then; an unmodified path keeps its stored value. The save fails if the stored issue is
  gone. \<open>loaded\<close> is the document as read, \<open>doc\<close> the document after the assignments.
\<close>

fun save_assignment :: "issues \<Rightarrow> jsval \<Rightarrow> issue \<Rightarrow> issue \<Rightarrow> issues option" where
  "save_assignment db (JStr s) loaded doc =
     (case db s of
        None \<Rightarrow> None
      | Some cur \<Rightarrow>
          Some (db(s \<mapsto> cur\<lparr>assignedTo := (if assignedTo doc \<noteq> assignedTo loaded then assignedTo doc
                                            else assignedTo cur),
                               status := (if status doc \<noteq> status loaded then status doc
                                          else status cur)\<rparr>)))"
| "save_assignment db _ loaded doc = None"

definition assigned_events :: "int \<Rightarrow> task \<Rightarrow> emit list" where
  "assigned_events now t =
     [\<lparr>em_target = To (UserRoom (JStr (userId (t_responder t)))), em_event = ''issue:assigned'',
       em_data = JObj [(''issueId'', t_issueId t),
                       (''assignedBy'', JObj [(''id'', t_toUserId t)]),
                       (''timestamp'', JDate now)]\<rparr>,
      \<lparr>em_target = To (UserRoom (t_toUserId t)), em_event = ''issue:assigned'',
       em_data = JObj [(''issueId'', t_issueId t),
                       (''assignedBy'', JObj [(''id'', t_toUserId t)]),
                       (''timestamp'', JDate now)]\<rparr>]"

text \<open>One step of a task on the issue collection and the log of emitted events.\<close>

definition task_step :: "int \<Rightarrow> issues \<times> emit list \<Rightarrow> task \<Rightarrow> (issues \<times> emit list) \<times> task" where
  "task_step now w t =
     (case t_state t of
        Pending \<Rightarrow> (w, t\<lparr>t_state := Loaded (findById (fst w) (t_issueId t))\<rparr>)
      | Loaded None \<Rightarrow> (w, t\<lparr>t_state := Done False\<rparr>)
      | Loaded (Some i) \<Rightarrow>
          (case is_owner i (t_toUserId t) of
             Inl e \<Rightarrow> (w, t\<lparr>t_state := Done False\<rparr>)
           | Inr owner \<Rightarrow>
               if \<not> owner then (w, t\<lparr>t_state := Done False\<rparr>)
               else if status i \<in> set [Resolved, Closed] then (w, t\<lparr>t_state := Done False\<rparr>)
               else (case save_assignment (fst w) (t_issueId t) i
                            (i\<lparr>assignedTo := Some (userId (t_responder t)), status := Assigned\<rparr>) of
                       None \<Rightarrow> (w, t\<lparr>t_state := Done False\<rparr>)
                     | Some db' \<Rightarrow>
                         ((db', snd w @ assigned_events now t), t\<lparr>t_state := Done True\<rparr>)))
      | Done b \<Rightarrow> (w, t))"

text \<open>A task run on its own: the read, then the checks and the save.\<close>

definition run_task :: "int \<Rightarrow> issues \<times> emit list \<Rightarrow> task \<Rightarrow> (issues \<times> emit list) \<times> task" where
  "run_task now w t = (case task_step now w t of (w', t') \<Rightarrow> task_step now w' t')"

text \<open>
  Two tasks under a schedule: \<open>True\<close> lets the first task take its next step, \<open>False\<close>
  the second. \<open>schedules\<close> lists the orders of the two steps of two tasks.
\<close>

fun run :: "int \<Rightarrow> bool list \<Rightarrow> (issues \<times> emit list) \<times> task \<times> task
              \<Rightarrow> (issues \<times> emit list) \<times> task \<times> task" where
  "run now [] c = c"
| "run now (b # bs) (w, ta, tb) =
     (if b then (case task_step now w ta of (w', ta') \<Rightarrow> run now bs (w', ta', tb))
      else (case task_step now w tb of (w', tb') \<Rightarrow> run now bs (w', ta, tb')))"

definition schedules :: "bool list list" where
  "schedules = [[True, True, False, False], [True, False, True, False], [True, False, False, True],
                [False, True, True, False], [False, True, False, True], [False, False, True, True]]"

text \<open>
  \<^verbatim>\<open>handleHelpRespond\<close>: the two events it emits itself and, for a truthy \<^verbatim>\<open>accepted\<close>,
  the task it starts.
\<close>

definition handleHelpRespond :: "int \<Rightarrow> socket \<Rightarrow> jsval \<Rightarrow> error + (emit list \<times> task option)" where
  "handleHelpRespond now s data =
     (if nullish data then Inl TypeError
      else Inr ([\<lparr>em_target = To (UserRoom (get data ''toUserId'')), em_event = ''help:response'',
                  em_data = JObj [(''from'', actor s), (''issueId'', get data ''issueId''),
                                  (''accepted'', JBool (truthy (get data ''accepted''))),
                                  (''note'', or_null (get data ''note'')),
                                  (''timestamp'', JDate now)]\<rparr>,
                 \<lparr>em_target = Self (sid s), em_event = ''help:responded'',
                  em_data = JObj [(''toUserId'', get data ''toUserId''),
                                  (''issueId'', get data ''issueId''),
                                  (''accepted'', JBool (truthy (get data ''accepted''))),
                                  (''timestamp'', JDate now)]\<rparr>],
                if truthy (get data ''accepted'')
                then Some \<lparr>t_responder = s, t_toUserId = get data ''toUserId'',
                           t_issueId = get data ''issueId'', t_state = Pending\<rparr>
                else None))"

subsection \<open>The listeners registered in \<^verbatim>\<open>setupEventHandlers\<close>\<close>

definition inbound_events :: "string list" where
  "inbound_events = [''issue:update'', ''comment:add'', ''issue:assign'', ''issue:resolve'',
     ''availability:update'', ''message:send'', ''help:ask'', ''help:respond'',
     ''typing:start'', ''typing:stop'']"

definition no_task :: "error + emit list \<Rightarrow> error + (emit list \<times> task option)" where
  "no_task r = (case r of Inl e \<Rightarrow> Inl e | Inr es \<Rightarrow> Inr (es, None))"

text \<open>A listener calls its handler and catches nothing; an event without a listener
  has no effect.\<close>

definition on_event :: "int \<Rightarrow> socket \<Rightarrow> string \<Rightarrow> jsval \<Rightarrow> error + (emit list \<times> task option)" where
  "on_event now s ev data =
     (if ev = ''issue:update'' then no_task (handleIssueUpdate now s data)
      else if ev = ''comment:add'' then no_task (handleNewComment now s data)
      else if ev = ''issue:assign'' then no_task (handleIssueAssignment now s data)
      else if ev = ''issue:resolve'' then no_task (handleIssueResolution now s data)
      else if ev = ''availability:update'' then no_task (handleAvailabilityUpdate now s data)
      else if ev = ''message:send'' then no_task (handlePrivateMessage now s data)
      else if ev = ''help:ask'' then no_task (handleHelpAsk now s data)
      else if ev = ''help:respond'' then handleHelpRespond now s data
      else if ev = ''typing:start'' then no_task (handleTypingStart s data)
      else if ev = ''typing:stop'' then no_task (handleTypingStop s data)
      else Inr ([], None))"

section \<open>Example data\<close>

definition example_user :: user where
  "example_user = \<lparr>employeeId = ''E1'', firstName = ''Ada'', lastName = ''Moss'',
     department = ''IT Support'', skills = [\<lparr>name = ''Network'', level = ''expert'', verified = True\<rparr>],
     rating_average = 4, contributions_issuesResolved = 5, contributions_points = 50,
     contributions_totalTimeHelped = 0,
     availability = ''busy'', lastActive = 0, isActive = True\<rparr>"

definition example_issue :: issue where
  "example_issue = \<lparr>title = ''VPN drops'', category = ''network'', priority = ''urgent'',
     status = Open, postedBy = ''owner'', assignedTo = None,
     requiredSkills = [''network'', ''vpn''],
     resolution = \<lparr>solution = None, resolvedBy = None, resolvedAt = None, timeSpent = 0\<rparr>,
     upvotes = [], downvotes = []\<rparr>"

text \<open>In the examples all strings are ASCII, \<open>ascii_lower\<close> stands for
  \<^verbatim>\<open>toLowerCase\<close> and the identity for \<^verbatim>\<open>trim\<close>. A stand-in for the regular-expression
  engine: every pattern is valid and matches the strings that contain it, letter case
  ignored.\<close>

definition example_RegExp :: regexp where
  "example_RegExp p = Some (\<lambda>s. sublist (ascii_lower p) (ascii_lower s))"

definition example_socket :: "string \<Rightarrow> objectId \<Rightarrow> socket" where
  "example_socket c uid = \<lparr>sid = c, userId = uid, suser = example_user\<rparr>"

definition example_task :: "string \<Rightarrow> objectId \<Rightarrow> task" where
  "example_task c uid = \<lparr>t_responder = example_socket c uid, t_toUserId = JStr ''owner'',
                          t_issueId = JStr ''i1'', t_state = Pending\<rparr>"

section \<open>Properties\<close>

subsection \<open>Voting\<close>

lemma voteIssue_alone:
  assumes "db iid = Some i" and "distinct (upvotes i @ downvotes i)"
  shows "\<exists>i'. fst (voteIssue db iid uid vt) iid = Some i'
           \<and> distinct (upvotes i' @ downvotes i')
           \<and> (uid \<in> set (upvotes i) \<union> set (downvotes i) \<longrightarrow>
                fst (voteIssue db iid uid vt) = db
                \<and> (\<exists>msg. v_state (snd (voteIssue db iid uid vt)) = Vote_done (Inr (Failure 400 msg))))"
  using assms
  by (auto simp: voteIssue_def vote_step_def vote_request_def save_vote_def addUpvote_def
      addDownvote_def canVote_def)

text \<open>
  C7. Two upvote requests of the same identity on an issue without votes, both reading the
  issue before either saves: each passes \<^verbatim>\<open>canVote\<close> on the document it read, each answers
  with success, and the identity is stored twice. With an upvote and a downvote, it is
  stored in both lists.
\<close>

theorem concurrent_votes_stored_twice:
  "run_votes [True, False, True, False]
     (Map.empty(''i1'' \<mapsto> example_issue),
      vote_request ''i1'' ''u1'' ''upvote'', vote_request ''i1'' ''u1'' ''upvote'')
   = (Map.empty(''i1'' \<mapsto> example_issue\<lparr>upvotes := [''u1'', ''u1'']\<rparr>),
      (vote_request ''i1'' ''u1'' ''upvote'')
        \<lparr>v_state := Vote_done (Inr (Success \<lparr>vd_voteCount = 1, vd_upvotes = 1, vd_downvotes = 0\<rparr>))\<rparr>,
      (vote_request ''i1'' ''u1'' ''upvote'')
        \<lparr>v_state := Vote_done (Inr (Success \<lparr>vd_voteCount = 1, vd_upvotes = 1, vd_downvotes = 0\<rparr>))\<rparr>)
   \<and> run_votes [True, False, True, False]
     (Map.empty(''i1'' \<mapsto> example_issue),
      vote_request ''i1'' ''u1'' ''upvote'', vote_request ''i1'' ''u1'' ''downvote'')
   = (Map.empty(''i1'' \<mapsto> example_issue\<lparr>upvotes := [''u1''], downvotes := [''u1'']\<rparr>),
      (vote_request ''i1'' ''u1'' ''upvote'')
        \<lparr>v_state := Vote_done (Inr (Success \<lparr>vd_voteCount = 1, vd_upvotes = 1, vd_downvotes = 0\<rparr>))\<rparr>,
      (vote_request ''i1'' ''u1'' ''downvote'')
        \<lparr>v_state := Vote_done (Inr (Success \<lparr>vd_voteCount = - 1, vd_upvotes = 0, vd_downvotes = 1\<rparr>))\<rparr>)"
  by (simp add: vote_step_def vote_request_def save_vote_def addUpvote_def addDownvote_def
      canVote_def voteCount_def example_issue_def)

subsection \<open>Presence registry\<close>

text \<open>
  C8. Two connections \<open>c1\<close> and then \<open>c2\<close> of the same user are registered and \<open>c1\<close>
  disconnects: \<^verbatim>\<open>handleDisconnect\<close> deletes the entry of the user, which holds \<open>c2\<close>.
  The user is reported offline while the inverse map still has \<open>c2\<close>.
\<close>

theorem handleDisconnect_removes_superseding_connection:
  "isUserOnline
     (handleDisconnect
        (onConnection (onConnection new_service \<lparr>sid = ''c1'', userId = ''A'', suser = example_user\<rparr>)
           \<lparr>sid = ''c2'', userId = ''A'', suser = example_user\<rparr>)
        \<lparr>sid = ''c1'', userId = ''A'', suser = example_user\<rparr>) ''A'' = False
   \<and> connectedUsers
     (handleDisconnect
        (onConnection (onConnection new_service \<lparr>sid = ''c1'', userId = ''A'', suser = example_user\<rparr>)
           \<lparr>sid = ''c2'', userId = ''A'', suser = example_user\<rparr>)
        \<lparr>sid = ''c1'', userId = ''A'', suser = example_user\<rparr>) ''A'' = None
   \<and> userSockets
     (handleDisconnect
        (onConnection (onConnection new_service \<lparr>sid = ''c1'', userId = ''A'', suser = example_user\<rparr>)
           \<lparr>sid = ''c2'', userId = ''A'', suser = example_user\<rparr>)
        \<lparr>sid = ''c1'', userId = ''A'', suser = example_user\<rparr>) ''c2'' = Some ''A''"
  by (simp add: isUserOnline_def handleDisconnect_def onConnection_def new_service_def)

subsection \<open>Helper scoring\<close>

lemma lower_Some:
  "map_of (zip ''ABCDEFGHIJKLMNOPQRSTUVWXYZ'' ''abcdefghijklmnopqrstuvwxyz'') a = Some l
   \<longleftrightarrow> upper_of l = Some a"
  unfolding upper_of_def by (simp split: if_splits)

lemma lower_not_upper:
  "upper_of l = Some a \<Longrightarrow>
   map_of (zip ''ABCDEFGHIJKLMNOPQRSTUVWXYZ'' ''abcdefghijklmnopqrstuvwxyz'') l = None"
  unfolding upper_of_def by (auto split: if_splits)

lemma ascii_lower_char_eq: "ascii_lower_char a = ascii_lower_char b \<longleftrightarrow> ci_char a b"
proof -
  let ?T = "map_of (zip ''ABCDEFGHIJKLMNOPQRSTUVWXYZ'' ''abcdefghijklmnopqrstuvwxyz'')"
  have ci: "ci_char a b \<longleftrightarrow> a = b \<or> ?T b = Some a \<or> ?T a = Some b"
    unfolding ci_char_def lower_Some ..
  show ?thesis
  proof (cases "?T a")
    case None
    note Na = this
    show ?thesis
    proof (cases "?T b")
      case None
      then show ?thesis using Na unfolding ci ascii_lower_char_def by simp
    next
      case (Some lb)
      then show ?thesis using Na unfolding ci ascii_lower_char_def by auto
    qed
  next
    case (Some la)
    note Sa = this
    have la: "?T la = None" using Sa lower_Some lower_not_upper by blast
    show ?thesis
    proof (cases "?T b")
      case None
      then show ?thesis using Sa unfolding ci ascii_lower_char_def by auto
    next
      case (Some lb)
      have lb: "?T lb = None" using Some lower_Some lower_not_upper by blast
      have inj: "la = lb \<Longrightarrow> a = b" using Sa Some lower_Some by (metis option.inject)
      show ?thesis using Sa Some la lb inj unfolding ci ascii_lower_char_def by auto
    qed
  qed
qed

lemma ascii_lower_eq: "ascii_lower r = ascii_lower s \<longleftrightarrow> ci_equal r s"
proof -
  have "ascii_lower r = ascii_lower s \<longleftrightarrow> list_all2 (=) (map ascii_lower_char r) (map ascii_lower_char s)"
    by (simp add: ascii_lower_def list.rel_eq)
  also have "\<dots> \<longleftrightarrow> list_all2 (\<lambda>a b. ascii_lower_char a = ascii_lower_char b) r s"
    by (simp add: list_all2_map1 list_all2_map2)
  also have "\<dots> \<longleftrightarrow> ci_equal r s"
    by (simp add: ci_equal_def ascii_lower_char_eq [abs_def] ci_char_def [abs_def])
  finally show ?thesis .
qed

lemma folds_ascii_ascii_lower: "folds_ascii ascii_lower"
  by (simp add: folds_ascii_def)

lemma length_matchingSkills: "length (matchingSkills lc u req) = spec_matched lc u req"
proof -
  have "{k. k < length req \<and> lc (req ! k) \<in> set (userSkillNames lc u)}
        = {k. k < length req \<and> (\<exists>s \<in> set (skills u). lc (name s) = lc (req ! k))}"
    by (auto simp: userSkillNames_def image_iff) metis
  then show ?thesis
    by (simp add: matchingSkills_def spec_matched_def length_filter_conv_card)
qed

lemma spec_matched_le: "spec_matched lc u req \<le> length req"
  unfolding length_matchingSkills [symmetric] matchingSkills_def by (rule length_filter_le)

lemma skillScore_spec: "req \<noteq> [] \<Longrightarrow> skillScore lc u req = Num (spec_skill lc u req)"
  by (simp add: skillScore_def spec_skill_def length_matchingSkills)

lemma spec_skill_bounds: "req \<noteq> [] \<Longrightarrow> 0 \<le> spec_skill lc u req \<and> spec_skill lc u req \<le> 1"
  using spec_matched_le [of lc u req] by (simp add: spec_skill_def)

lemma spec_matched_ascii_eq:
  assumes "folds_ascii lc" and "list_all ascii req" and "list_all (\<lambda>s. ascii (name s)) (skills u)"
  shows "spec_matched lc u req = spec_matched_ascii u req"
proof -
  have "lc (name s) = lc (req ! k) \<longleftrightarrow> ci_equal (name s) (req ! k)"
    if "k < length req" and "s \<in> set (skills u)" for k s
  proof -
    have "ascii (req ! k)" using assms(2) that(1) by (simp add: list_all_length)
    moreover have "ascii (name s)" using assms(3) that(2) by (simp add: list_all_iff)
    ultimately show ?thesis
      using assms(1) by (simp add: folds_ascii_def ascii_lower_eq)
  qed
  then have "{k. k < length req \<and> (\<exists>s \<in> set (skills u). lc (name s) = lc (req ! k))}
           = {k. k < length req \<and> (\<exists>s \<in> set (skills u). ci_equal (name s) (req ! k))}"
    by blast
  then show ?thesis by (simp add: spec_matched_def spec_matched_ascii_def)
qed

lemma skillScore_example:
  assumes "folds_ascii lc"
  shows "skillScore lc (u\<lparr>skills := [\<lparr>name = ''network'', level = l, verified = v\<rparr>]\<rparr>)
            [''network'', ''vpn''] = Num 0.5"
    and "skillScore lc (u\<lparr>skills := [\<lparr>name = ''Network'', level = l, verified = v\<rparr>]\<rparr>)
            [''NETWORK'', ''vpn''] = Num 0.5"
proof -
  have a: "lc ''network'' = ascii_lower ''network''" "lc ''vpn'' = ascii_lower ''vpn''"
    "lc ''Network'' = ascii_lower ''Network''" "lc ''NETWORK'' = ascii_lower ''NETWORK''"
    using assms by (simp_all add: folds_ascii_def ascii_def)
  show "skillScore lc (u\<lparr>skills := [\<lparr>name = ''network'', level = l, verified = v\<rparr>]\<rparr>)
            [''network'', ''vpn''] = Num 0.5"
    by (simp add: skillScore_def matchingSkills_def userSkillNames_def a ascii_lower_def
        ascii_lower_char_def)
  show "skillScore lc (u\<lparr>skills := [\<lparr>name = ''Network'', level = l, verified = v\<rparr>]\<rparr>)
            [''NETWORK'', ''vpn''] = Num 0.5"
    by (simp add: skillScore_def matchingSkills_def userSkillNames_def a ascii_lower_def
        ascii_lower_char_def)
qed

text \<open>
  C3. For a non-empty list of required skills, the skill sub-score is the number of
  required skills (counted by position) whose lower-cased form equals the lower-cased name
  of one of the candidate's skills, divided by the number of required skills. It lies
  between 0 and 1, and a candidate that matches at least as many required skills scores at
  least as much. On ASCII strings, where lower-casing folds the letters A to Z, a required
  skill matches exactly when it equals a skill name up to the case of its letters. A
  candidate whose only skill is \<open>network\<close> scores one half against \<open>network, vpn\<close>, and so
  does one whose only skill is \<open>Network\<close> against \<open>NETWORK, vpn\<close>.
\<close>

theorem skillScore_fraction:
  assumes "req \<noteq> []"
  shows "skillScore lc u req = Num (real (spec_matched lc u req) / real (length req))
       \<and> 0 \<le> real (spec_matched lc u req) / real (length req)
       \<and> real (spec_matched lc u req) / real (length req) \<le> 1
       \<and> (\<forall>u'. spec_matched lc u req \<le> spec_matched lc u' req \<longrightarrow>
            (\<exists>r r'. skillScore lc u req = Num r \<and> skillScore lc u' req = Num r' \<and> r \<le> r'))
       \<and> (folds_ascii lc \<and> list_all ascii req \<and> list_all (\<lambda>s. ascii (name s)) (skills u) \<longrightarrow>
            skillScore lc u req = Num (real (spec_matched_ascii u req) / real (length req)))
       \<and> (folds_ascii lc \<longrightarrow>
            skillScore lc (u\<lparr>skills := [\<lparr>name = ''network'', level = l, verified = v\<rparr>]\<rparr>)
              [''network'', ''vpn''] = Num 0.5
          \<and> skillScore lc (u\<lparr>skills := [\<lparr>name = ''Network'', level = l, verified = v\<rparr>]\<rparr>)
              [''NETWORK'', ''vpn''] = Num 0.5)"
proof -
  have eq: "\<And>w. skillScore lc w req = Num (real (spec_matched lc w req) / real (length req))"
    using assms skillScore_spec [of req] by (simp add: spec_skill_def)
  have b: "0 \<le> real (spec_matched lc u req) / real (length req)
         \<and> real (spec_matched lc u req) / real (length req) \<le> 1"
    using spec_skill_bounds [OF assms, of lc u] by (simp add: spec_skill_def)
  have m: "\<forall>u'. spec_matched lc u req \<le> spec_matched lc u' req \<longrightarrow>
            (\<exists>r r'. skillScore lc u req = Num r \<and> skillScore lc u' req = Num r' \<and> r \<le> r')"
    by (simp add: eq divide_right_mono)
  have a: "folds_ascii lc \<and> list_all ascii req \<and> list_all (\<lambda>s. ascii (name s)) (skills u) \<longrightarrow>
            skillScore lc u req = Num (real (spec_matched_ascii u req) / real (length req))"
    using eq spec_matched_ascii_eq [of lc req u] by simp
  show ?thesis using eq b m a skillScore_example [of lc l v u] by blast
qed

theorem skillScore_fraction_witness:
  "[''NETWORK'', ''vpn'', ''DNS''] \<noteq> []
   \<and> folds_ascii ascii_lower
   \<and> list_all ascii [''NETWORK'', ''vpn'', ''DNS'']
   \<and> list_all (\<lambda>s. ascii (name s)) (skills example_user)
   \<and> spec_matched ascii_lower (example_user\<lparr>skills := []\<rparr>) [''NETWORK'', ''vpn'', ''DNS'']
       \<le> spec_matched ascii_lower example_user [''NETWORK'', ''vpn'', ''DNS'']
   \<and> skillScore ascii_lower (example_user\<lparr>skills := []\<rparr>) [''NETWORK'', ''vpn'', ''DNS''] = Num 0
   \<and> skillScore ascii_lower example_user [''NETWORK'', ''vpn'', ''DNS''] = Num (1 / 3)
   \<and> real (spec_matched_ascii example_user [''NETWORK'', ''vpn'', ''DNS'']) / 3 = 1 / 3"
proof -
  have h: "[''NETWORK'', ''vpn'', ''DNS''] \<noteq> []" "folds_ascii ascii_lower"
    "list_all ascii [''NETWORK'', ''vpn'', ''DNS'']"
    "list_all (\<lambda>s. ascii (name s)) (skills example_user)"
    by (simp_all add: folds_ascii_ascii_lower ascii_def example_user_def)
  have m: "spec_matched ascii_lower (example_user\<lparr>skills := []\<rparr>) [''NETWORK'', ''vpn'', ''DNS'']
       \<le> spec_matched ascii_lower example_user [''NETWORK'', ''vpn'', ''DNS'']"
    unfolding length_matchingSkills [symmetric]
    by (simp add: matchingSkills_def userSkillNames_def)
  have s0: "skillScore ascii_lower (example_user\<lparr>skills := []\<rparr>) [''NETWORK'', ''vpn'', ''DNS''] = Num 0"
    by (simp add: skillScore_def matchingSkills_def userSkillNames_def)
  have s1: "skillScore ascii_lower example_user [''NETWORK'', ''vpn'', ''DNS''] = Num (1 / 3)"
    by (simp add: skillScore_def matchingSkills_def userSkillNames_def ascii_lower_def
        ascii_lower_char_def example_user_def)
  have t: "skillScore ascii_lower example_user [''NETWORK'', ''vpn'', ''DNS'']
           = Num (real (spec_matched_ascii example_user [''NETWORK'', ''vpn'', ''DNS''])
                  / real (length [''NETWORK'', ''vpn'', ''DNS'']))"
    using h skillScore_fraction [OF h(1), of ascii_lower example_user] by blast
  have "real (spec_matched_ascii example_user [''NETWORK'', ''vpn'', ''DNS'']) / 3 = 1 / 3"
    using t unfolding s1 by simp
  then show ?thesis
    using h m s0 s1 by simp
qed

lemma historyScore_spec: "historyScore u = spec_history u"
  by (simp add: historyScore_def spec_history_def pointsScore_def resolvedScore_def ratingScore_def)

lemma engagementScore_spec:
  "engagementScore now u = spec_engagement now u"
  by (simp add: engagementScore_def spec_engagement_def recencyScore_def spec_recency_def
      daysSinceLastActive_def availabilityScore_def spec_availability_def)

lemma not_inherited: "\<not> inherited k \<Longrightarrow> map_of object_prototype k = None"
  by (simp add: inherited_def map_of_eq_None_iff)

lemma own_keywords:
  "(case map_of categoryToDepartments c of None \<Rightarrow> {} | Some l \<Rightarrow> set l) = spec_keywords c"
  by (auto simp add: categoryToDepartments_def spec_keywords_def)

lemma domainScore_spec:
  assumes "\<not> inherited c"
  shows "domainScore lc u c = Inr (spec_domain lc u c)"
proof (cases "map_of categoryToDepartments c")
  case None
  then have "spec_keywords c = {}" using own_keywords [of c] by simp
  then show ?thesis
    using None not_inherited [OF assms]
    by (simp add: domainScore_def property_def spec_domain_def)
next
  case (Some l)
  then have k: "spec_keywords c = set l" using own_keywords [of c] by simp
  have "list_ex (\<lambda>d. str_includes (lc (department u)) d) l
     \<longleftrightarrow> (\<exists>k \<in> spec_keywords c. \<exists>p q. lc (department u) = p @ k @ q)"
    by (simp add: list_ex_iff k str_includes_def sublist_def)
  moreover have "length l = 0 \<longleftrightarrow> spec_keywords c = {}" using k by simp
  ultimately show ?thesis
    using Some by (simp add: domainScore_def property_def spec_domain_def)
qed

lemma priorityMultiplier_spec:
  assumes "\<not> inherited p"
  shows "priorityMultiplier p = Num (spec_priority_factor p)"
  using not_inherited [OF assms]
  by (simp add: priorityMultiplier_def property_def priorityMultiplierMap_def spec_priority_factor_def)

lemma default_arguments: "\<not> inherited ''other''" "\<not> inherited ''medium''"
  by (simp_all add: inherited_def object_prototype_def)

lemma calculateHelperScore_any:
  assumes "req \<noteq> []"
    and "\<not> inherited (case c of None \<Rightarrow> ''other'' | Some x \<Rightarrow> x)"
    and "\<not> inherited (case p of None \<Rightarrow> ''medium'' | Some x \<Rightarrow> x)"
  shows "calculateHelperScore lc now u req c p =
           Inr (Num ((0.35 * spec_skill lc u req + 0.30 * spec_history u
                 + 0.20 * spec_domain lc u (case c of None \<Rightarrow> ''other'' | Some x \<Rightarrow> x)
                 + 0.15 * spec_engagement now u)
                * spec_priority_factor (case p of None \<Rightarrow> ''medium'' | Some x \<Rightarrow> x)))"
  using assms(1)
  by (simp add: calculateHelperScore_def baseScore_def skillScore_spec historyScore_spec
      engagementScore_spec domainScore_spec [OF assms(2)] priorityMultiplier_spec [OF assms(3)]
      mult.commute)




lemma spec_history_bounds:
  assumes "0 \<le> contributions_points u" "0 \<le> contributions_issuesResolved u"
    "0 \<le> rating_average u" "rating_average u \<le> 5"
  shows "0 \<le> spec_history u \<and> spec_history u \<le> 1"
  using assms by (simp add: spec_history_def min_def)

lemma spec_engagement_bounds:
  assumes "lastActive u \<le> now"
  shows "0 \<le> spec_engagement now u \<and> spec_engagement now u \<le> 1"
proof -
  have d: "0 \<le> real_of_int (now - lastActive u) / 86400000 / 30"
    using assms by simp
  have r: "0 \<le> spec_recency now u \<and> spec_recency now u \<le> 1"
    unfolding spec_recency_def using d by linarith
  have a: "0 \<le> spec_availability (availability u) \<and> spec_availability (availability u) \<le> 1"
    by (simp add: spec_availability_def)
  show ?thesis unfolding spec_engagement_def using r a by simp
qed

lemma spec_domain_bounds: "0 \<le> spec_domain lc u c \<and> spec_domain lc u c \<le> 1"
  by (simp add: spec_domain_def)

lemma spec_priority_factor_bounds: "0 < spec_priority_factor p \<and> spec_priority_factor p \<le> 1.2"
  by (simp add: spec_priority_factor_def)

lemma weighted_bounds:
  fixes s h d e m :: real
  assumes "0 \<le> s \<and> s \<le> 1" "0 \<le> h \<and> h \<le> 1" "0 \<le> d \<and> d \<le> 1" "0 \<le> e \<and> e \<le> 1"
    "0 < m \<and> m \<le> 1.2"
  shows "0 \<le> (0.35 * s + 0.30 * h + 0.20 * d + 0.15 * e) * m
       \<and> (0.35 * s + 0.30 * h + 0.20 * d + 0.15 * e) * m \<le> 1.2"
proof -
  let ?b = "0.35 * s + 0.30 * h + 0.20 * d + 0.15 * e"
  have b: "0 \<le> ?b \<and> ?b \<le> 1" using assms by simp
  then have "?b * m \<le> 1 * 1.2"
    using assms(5) by (intro mult_mono) simp_all
  moreover have "0 \<le> ?b * m" using b assms(5) by simp
  ultimately show ?thesis by simp
qed

text \<open>
  C5. For a non-empty list of required skills, non-negative points and resolved issues, an
  average rating between 0 and 5 and a last activity that is not in the future, the score
  is a number between 0 and 1.2, for every category and priority in effect (the argument,
  or the default \<open>other\<close> or \<open>medium\<close> when it is omitted) that names no member every
  object inherits: so for the omitted arguments, for every value of the issue schema, and
  for every other such string.
\<close>

theorem calculateHelperScore_range:
  assumes "req \<noteq> []" "0 \<le> contributions_points u" "0 \<le> contributions_issuesResolved u"
    "0 \<le> rating_average u" "rating_average u \<le> 5" "lastActive u \<le> now"
    and "\<not> inherited (case c of None \<Rightarrow> ''other'' | Some x \<Rightarrow> x)"
    and "\<not> inherited (case p of None \<Rightarrow> ''medium'' | Some x \<Rightarrow> x)"
  shows "\<exists>r. calculateHelperScore lc now u req c p = Inr (Num r) \<and> 0 \<le> r \<and> r \<le> 1.2"
proof -
  show ?thesis
    unfolding calculateHelperScore_any [OF assms(1) assms(7) assms(8)]
    using weighted_bounds [OF spec_skill_bounds [OF assms(1)] spec_history_bounds [OF assms(2-5)]
        spec_domain_bounds spec_engagement_bounds [OF assms(6)] spec_priority_factor_bounds]
    by blast
qed

theorem calculateHelperScore_range_witness:
  "[''network'', ''vpn''] \<noteq> [] \<and> 0 \<le> contributions_points example_user
   \<and> 0 \<le> contributions_issuesResolved example_user \<and> 0 \<le> rating_average example_user
   \<and> rating_average example_user \<le> 5 \<and> lastActive example_user \<le> 86400000
   \<and> \<not> inherited (case Some ''network'' of None \<Rightarrow> ''other'' | Some x \<Rightarrow> x)
   \<and> \<not> inherited (case Some ''urgent'' of None \<Rightarrow> ''medium'' | Some x \<Rightarrow> x)
   \<and> (\<exists>r. calculateHelperScore ascii_lower 86400000 example_user [''network'', ''vpn'']
             (Some ''network'') (Some ''urgent'') = Inr (Num r)
          \<and> 0 \<le> r \<and> r \<le> 1.2)"
proof -
  have h: "[''network'', ''vpn''] \<noteq> []" "0 \<le> contributions_points example_user"
    "0 \<le> contributions_issuesResolved example_user" "0 \<le> rating_average example_user"
    "rating_average example_user \<le> 5" "lastActive example_user \<le> 86400000"
    "\<not> inherited (case Some ''network'' of None \<Rightarrow> ''other'' | Some x \<Rightarrow> x)"
    "\<not> inherited (case Some ''urgent'' of None \<Rightarrow> ''medium'' | Some x \<Rightarrow> x)"
    by (simp_all add: example_user_def inherited_def object_prototype_def)
  show ?thesis
    using h calculateHelperScore_range [OF h, of ascii_lower]
    by blast
qed

subsection \<open>Helper suggestions\<close>

lemma set_insert_cmp: "set (insert_cmp cmp x ys) = insert x (set ys)"
  by (induction ys) auto

lemma length_insert_cmp: "length (insert_cmp cmp x ys) = Suc (length ys)"
  by (induction ys) auto

lemma set_sort_cmp: "set (sort_cmp cmp xs) = set xs"
  by (induction xs) (auto simp: sort_cmp_def set_insert_cmp)

lemma length_sort_cmp: "length (sort_cmp cmp xs) = length xs"
  by (induction xs) (auto simp: sort_cmp_def length_insert_cmp)

lemma insert_cmp_sorted:
  assumes "\<forall>e \<in> set (x # ys). \<exists>r. helperScore e = Num r"
    and "sorted_wrt score_ge ys"
  shows "sorted_wrt score_ge (insert_cmp by_score_desc x ys)"
  using assms
proof (induction ys)
  case Nil
  then show ?case by simp
next
  case (Cons y ys)
  obtain rx ry where rx: "helperScore x = Num rx" and ry: "helperScore y = Num ry"
    using Cons.prems(1) by auto
  show ?case
  proof (cases "rx < ry")
    case True
    have "sorted_wrt score_ge (insert_cmp by_score_desc x ys)"
      using Cons by simp
    moreover have "score_ge y x" using True rx ry by (simp add: score_ge_def)
    moreover have "positive (by_score_desc x y)" using True rx ry by (simp add: by_score_desc_def)
    ultimately show ?thesis using Cons.prems(2)
      by (auto simp: set_insert_cmp)
  next
    case False
    have xy: "score_ge x y" using False rx ry by (simp add: score_ge_def)
    have "\<And>z. score_ge y z \<Longrightarrow> score_ge x z"
      using False rx ry by (auto simp: score_ge_def split: number.splits)
    moreover have "\<not> positive (by_score_desc x y)" using False rx ry by (simp add: by_score_desc_def)
    ultimately show ?thesis using xy Cons.prems(2) by auto
  qed
qed

lemma sort_cmp_sorted:
  assumes "\<forall>e \<in> set xs. \<exists>r. helperScore e = Num r"
  shows "sorted_wrt score_ge (sort_cmp by_score_desc xs)"
  using assms
proof (induction xs)
  case Nil
  then show ?case by (simp add: sort_cmp_def)
next
  case (Cons x xs)
  have "sort_cmp by_score_desc (x # xs) = insert_cmp by_score_desc x (sort_cmp by_score_desc xs)"
    by (simp add: sort_cmp_def)
  moreover have "\<forall>e \<in> set (x # sort_cmp by_score_desc xs). \<exists>r. helperScore e = Num r"
    using Cons.prems by (simp add: set_sort_cmp)
  moreover have "sorted_wrt score_ge (sort_cmp by_score_desc xs)"
    using Cons by simp
  ultimately show ?case
    using insert_cmp_sorted by metis
qed

lemma potentialHelpers_empty:
  "requiredSkills i = [] \<Longrightarrow> potentialHelpers RegExp users i = Inr []"
  by (simp add: potentialHelpers_def find_users_def list_ex_iff)

lemma domainScore_other: "domainScore lc u ''other'' = Inr 0.2"
  by (simp add: domainScore_def property_def categoryToDepartments_def)

lemma priorityMultiplier_medium: "priorityMultiplier ''medium'' = Num 1.0"
  by (simp add: priorityMultiplier_def property_def priorityMultiplierMap_def)

lemma calculateHelperScore_empty: "calculateHelperScore lc now u [] None None = Inr NaN"
  by (simp add: calculateHelperScore_def baseScore_def skillScore_def domainScore_other)

lemma calculateHelperScore_default:
  "\<exists>n. calculateHelperScore lc now u req None None = Inr n"
  by (simp add: calculateHelperScore_def baseScore_def domainScore_other)

lemma calculateHelperScore_default_Num:
  assumes "req \<noteq> []"
  shows "calculateHelperScore lc now u req None None
         = Inr (Num ((0.35 * spec_skill lc u req + 0.30 * spec_history u + 0.20 * 0.2
                      + 0.15 * spec_engagement now u) * 1.0))"
  using calculateHelperScore_any [of req None None lc now u] assms default_arguments
  by (simp add: spec_domain_def spec_keywords_def spec_priority_factor_def)

lemma helpersWithScores_total:
  "\<exists>ws. helpersWithScores lc now i hs = Inr ws \<and> map helper ws = hs
        \<and> (\<forall>e \<in> set ws. calculateHelperScore lc now (helper e) (requiredSkills i) None None
                            = Inr (helperScore e))"
proof (induction hs)
  case Nil
  then show ?case by simp
next
  case (Cons h hs)
  obtain n where n: "calculateHelperScore lc now h (requiredSkills i) None None = Inr n"
    using calculateHelperScore_default by blast
  obtain ws where ws: "helpersWithScores lc now i hs = Inr ws" "map helper ws = hs"
    "\<forall>e \<in> set ws. calculateHelperScore lc now (helper e) (requiredSkills i) None None
                    = Inr (helperScore e)"
    using Cons.IH by blast
  show ?case
    by (rule exI [where x = "\<lparr>helper = h, helperScore = n\<rparr> # ws"]) (simp add: n ws)
qed

lemma helpersWithScores_irrelevant:
  "helpersWithScores lc now (i\<lparr>category := c, priority := p\<rparr>) hs = helpersWithScores lc now i hs"
  by (induction hs) (simp_all split: sum.splits)

lemma potentialHelpers_nonempty:
  assumes "potentialHelpers RegExp users i = Inr hs" "hs \<noteq> []"
  shows "requiredSkills i \<noteq> []"
  using assms potentialHelpers_empty [of i RegExp users] by auto

text \<open>
  C10. When the issue exists and the candidate query succeeds, the suggestion operation
  answers with at most ten helpers, the first ten of the list of all candidates sorted by
  score, highest first. Each score is that of \<^verbatim>\<open>calculateHelperScore\<close> called with the
  required skills alone, so with the default category and priority: the domain sub-score
  is the constant 0.2 and the priority multiplier is 1, and the category and the priority
  of the issue do not change the answer.
\<close>

theorem getHelperSuggestions_default_scoring:
  assumes "db iid = Some i" and "potentialHelpers RegExp users i = Inr hs"
  shows "\<exists>sg rest ws. getHelperSuggestions RegExp lc now db users iid = Inr (Success sg)
     \<and> length (sg_helpers sg) \<le> 10
     \<and> sg_helpers sg = take 10 (sg_helpers sg @ rest)
     \<and> sorted_wrt score_ge (sg_helpers sg @ rest)
     \<and> helpersWithScores lc now i hs = Inr ws \<and> map helper ws = hs
     \<and> set (sg_helpers sg @ rest) = set ws
     \<and> length (sg_helpers sg @ rest) = length hs
     \<and> (\<forall>e \<in> set (sg_helpers sg @ rest).
           calculateHelperScore lc now (helper e) (requiredSkills i) None None = Inr (helperScore e)
         \<and> helperScore e = Num ((0.35 * spec_skill lc (helper e) (requiredSkills i)
                                 + 0.30 * spec_history (helper e) + 0.20 * 0.2
                                 + 0.15 * spec_engagement now (helper e)) * 1.0))
     \<and> (\<forall>c p. getHelperSuggestions RegExp lc now (db(iid \<mapsto> i\<lparr>category := c, priority := p\<rparr>)) users iid
              = getHelperSuggestions RegExp lc now db users iid)
     \<and> (\<forall>u. domainScore lc u ''other'' = Inr 0.2) \<and> priorityMultiplier ''medium'' = Num 1.0"
proof -
  obtain ws where ws: "helpersWithScores lc now i hs = Inr ws" "map helper ws = hs"
    "\<forall>e \<in> set ws. calculateHelperScore lc now (helper e) (requiredSkills i) None None
                    = Inr (helperScore e)"
    using helpersWithScores_total by blast
  let ?full = "sort_cmp by_score_desc ws"
  let ?sg = "\<lparr>sg_issue = \<lparr>is_id = iid, is_title = title i, is_requiredSkills = requiredSkills i\<rparr>,
              sg_helpers = take 10 ?full\<rparr>"
  have r: "getHelperSuggestions RegExp lc now db users iid = Inr (Success ?sg)"
    using assms ws(1) by (simp add: getHelperSuggestions_def)
  have app: "sg_helpers ?sg @ drop 10 ?full = ?full" by simp
  have num: "\<forall>e \<in> set ws. helperScore e = Num ((0.35 * spec_skill lc (helper e) (requiredSkills i)
                                 + 0.30 * spec_history (helper e) + 0.20 * 0.2
                                 + 0.15 * spec_engagement now (helper e)) * 1.0)"
  proof
    fix e assume e: "e \<in> set ws"
    then have "hs \<noteq> []" using ws(2) by auto
    then have ne: "requiredSkills i \<noteq> []" using potentialHelpers_nonempty [OF assms(2)] by simp
    have "calculateHelperScore lc now (helper e) (requiredSkills i) None None = Inr (helperScore e)"
      using ws(3) e by blast
    then show "helperScore e = Num ((0.35 * spec_skill lc (helper e) (requiredSkills i)
                                 + 0.30 * spec_history (helper e) + 0.20 * 0.2
                                 + 0.15 * spec_engagement now (helper e)) * 1.0)"
      unfolding calculateHelperScore_default_Num [OF ne] by simp
  qed
  then have "\<forall>e \<in> set ws. \<exists>r. helperScore e = Num r" by blast
  then have s: "sorted_wrt score_ge (sg_helpers ?sg @ drop 10 ?full)"
    unfolding app by (rule sort_cmp_sorted)
  have st: "set (sg_helpers ?sg @ drop 10 ?full) = set ws"
    unfolding app by (rule set_sort_cmp)
  have ln: "length (sg_helpers ?sg @ drop 10 ?full) = length hs"
    unfolding app using ws(2) by (auto simp: length_sort_cmp)
  have sc: "\<forall>e \<in> set (sg_helpers ?sg @ drop 10 ?full).
           calculateHelperScore lc now (helper e) (requiredSkills i) None None = Inr (helperScore e)
         \<and> helperScore e = Num ((0.35 * spec_skill lc (helper e) (requiredSkills i)
                                 + 0.30 * spec_history (helper e) + 0.20 * 0.2
                                 + 0.15 * spec_engagement now (helper e)) * 1.0)"
    unfolding st using ws(3) num by blast
  have ind: "\<forall>c p. getHelperSuggestions RegExp lc now (db(iid \<mapsto> i\<lparr>category := c, priority := p\<rparr>)) users iid
              = getHelperSuggestions RegExp lc now db users iid"
    using assms(1)
    by (simp add: getHelperSuggestions_def potentialHelpers_def helpersWithScores_irrelevant
        split: sum.splits)
  have dom: "\<forall>u. domainScore lc u ''other'' = Inr 0.2"
    by (simp add: domainScore_other)
  have pm: "priorityMultiplier ''medium'' = Num 1.0"
    by (rule priorityMultiplier_medium)
  have tk: "sg_helpers ?sg = take 10 (sg_helpers ?sg @ drop 10 ?full)" by simp
  have l10: "length (sg_helpers ?sg) \<le> 10" by simp
  show ?thesis
    by (rule exI [where x = ?sg], rule exI [where x = "drop 10 ?full"], rule exI [where x = ws])
      (intro conjI r l10 tk s ws(1) ws(2) st ln sc ind dom pm)
qed

text \<open>
  C6 (as amended). For an issue whose list of required skills is empty, the candidate query
  selects no user, so the scoring function is not called, and the suggestion operation
  answers with success and an empty list of helpers: no error is signalled. The scoring
  function itself, called with an empty list and no other argument, throws nothing and
  returns NaN.
\<close>

theorem empty_requiredSkills_no_error:
  assumes "db iid = Some i" and "requiredSkills i = []"
  shows "potentialHelpers RegExp users i = Inr []
     \<and> getHelperSuggestions RegExp lc now db users iid
         = Inr (Success \<lparr>sg_issue = \<lparr>is_id = iid, is_title = title i, is_requiredSkills = []\<rparr>,
                          sg_helpers = []\<rparr>)
     \<and> calculateHelperScore lc now u [] None None = Inr NaN"
  using assms potentialHelpers_empty [OF assms(2), of RegExp users]
  by (simp add: getHelperSuggestions_def sort_cmp_def calculateHelperScore_empty)

lemma example_potentialHelpers:
  "potentialHelpers example_RegExp [example_user] example_issue = Inr [example_user]"
  by (simp add: potentialHelpers_def example_RegExp_def find_users_def example_issue_def
      example_user_def ascii_lower_def ascii_lower_char_def sublist_code prefix_code)

theorem getHelperSuggestions_default_scoring_witness:
  "(Map.empty(''i1'' \<mapsto> example_issue)) ''i1'' = Some example_issue
   \<and> potentialHelpers example_RegExp [example_user] example_issue = Inr [example_user]
   \<and> getHelperSuggestions example_RegExp ascii_lower 0 (Map.empty(''i1'' \<mapsto> example_issue))
        [example_user] ''i1''
       = Inr (Success \<lparr>sg_issue = \<lparr>is_id = ''i1'', is_title = ''VPN drops'',
                                     is_requiredSkills = [''network'', ''vpn'']\<rparr>,
                        sg_helpers = [\<lparr>helper = example_user, helperScore = Num (1009 / 2000)\<rparr>]\<rparr>)"
proof -
  have h1: "(Map.empty(''i1'' \<mapsto> example_issue)) ''i1'' = Some example_issue" by simp
  have sc: "calculateHelperScore ascii_lower 0 example_user [''network'', ''vpn''] None None
            = Inr (Num (1009 / 2000))"
    by (simp add: calculateHelperScore_def baseScore_def skillScore_def matchingSkills_def
      userSkillNames_def ascii_lower_def ascii_lower_char_def example_user_def historyScore_def
      pointsScore_def resolvedScore_def ratingScore_def engagementScore_def recencyScore_def
      daysSinceLastActive_def availabilityScore_def domainScore_other priorityMultiplier_medium)
  have rs: "requiredSkills example_issue = [''network'', ''vpn'']" "title example_issue = ''VPN drops''"
    by (simp_all add: example_issue_def)
  show ?thesis
    using h1 example_potentialHelpers
      getHelperSuggestions_default_scoring
        [of "Map.empty(''i1'' \<mapsto> example_issue)" "''i1''" example_issue example_RegExp
            "[example_user]" "[example_user]" ascii_lower 0]
    by (simp add: getHelperSuggestions_def sort_cmp_def sc rs)
qed

theorem empty_requiredSkills_no_error_witness:
  "(Map.empty(''i1'' \<mapsto> example_issue\<lparr>requiredSkills := []\<rparr>)) ''i1''
      = Some (example_issue\<lparr>requiredSkills := []\<rparr>)
   \<and> requiredSkills (example_issue\<lparr>requiredSkills := []\<rparr>) = []
   \<and> potentialHelpers example_RegExp [example_user] (example_issue\<lparr>requiredSkills := []\<rparr>) = Inr []"
proof -
  have h1: "(Map.empty(''i1'' \<mapsto> example_issue\<lparr>requiredSkills := []\<rparr>)) ''i1''
      = Some (example_issue\<lparr>requiredSkills := []\<rparr>)" by simp
  have h2: "requiredSkills (example_issue\<lparr>requiredSkills := []\<rparr>) = []" by simp
  show ?thesis
    using h1 h2 empty_requiredSkills_no_error
        [of "Map.empty(''i1'' \<mapsto> example_issue\<lparr>requiredSkills := []\<rparr>)" "''i1''"
            "example_issue\<lparr>requiredSkills := []\<rparr>" example_RegExp "[example_user]"]
    by blast
qed

text \<open>The claim as stated fails: for an empty list the operation succeeds.\<close>

theorem empty_requiredSkills_counterexample:
  "getHelperSuggestions example_RegExp ascii_lower 0
      (Map.empty(''i1'' \<mapsto> example_issue\<lparr>requiredSkills := []\<rparr>)) [example_user] ''i1''
     = Inr (Success \<lparr>sg_issue = \<lparr>is_id = ''i1'', is_title = ''VPN drops'', is_requiredSkills = []\<rparr>,
                      sg_helpers = []\<rparr>)
   \<and> calculateHelperScore ascii_lower 0 example_user [] None None = Inr NaN"
  by (simp add: getHelperSuggestions_def potentialHelpers_def find_users_def
      sort_cmp_def example_issue_def calculateHelperScore_empty list_ex_iff)

subsection \<open>Issue status\<close>

lemma run_task_missing:
  assumes "db iid = None" "t_state t = Pending" "t_issueId t = JStr iid"
  shows "run_task now (db, out) t = ((db, out), t\<lparr>t_state := Done False\<rparr>)"
  using assms by (simp add: run_task_def task_step_def)

lemma run_task_rejects:
  assumes "db iid = Some i" "requester \<noteq> postedBy i \<or> status i = Resolved \<or> status i = Closed"
    "t_state t = Pending" "t_issueId t = JStr iid" "t_toUserId t = JStr requester"
  shows "run_task now (db, out) t = ((db, out), t\<lparr>t_state := Done False\<rparr>)"
  using assms by (auto simp: run_task_def task_step_def)

lemma run_task_assigns:
  assumes "db iid = Some i" "status i \<noteq> Resolved" "status i \<noteq> Closed"
    "t_state t = Pending" "t_issueId t = JStr iid" "t_toUserId t = JStr (postedBy i)"
  shows "run_task now (db, out) t
         = ((db(iid \<mapsto> i\<lparr>assignedTo := Some (userId (t_responder t)), status := Assigned\<rparr>),
             out @ assigned_events now t),
            t\<lparr>t_state := Done True\<rparr>)"
  using assms
  by (cases i) (auto simp: run_task_def task_step_def assigned_events_def)

lemma assignIssue_assigns:
  assumes "db iid = Some i" "postedBy i = uid" "udb h = Some hu" "h \<noteq> []"
  shows "assignIssue db udb iid uid (Some h)
         = (Success (i\<lparr>assignedTo := Some h, status := Assigned\<rparr>),
            db(iid \<mapsto> i\<lparr>assignedTo := Some h, status := Assigned\<rparr>))"
  using assms by (simp add: assignIssue_def Let_def)

lemma resolveIssue_resolves:
  assumes "db iid = Some i" "assignedTo i = Some uid" "udb uid = Some hu" "sol \<noteq> []"
  shows "\<exists>udb'. resolveIssue trim now db udb iid uid (Some sol) spent
         = Inr (Success (resolve trim now i uid sol spent),
                db(iid \<mapsto> resolve trim now i uid sol spent), udb')"
  using assms by (simp add: resolveIssue_def Let_def)

lemma resolveIssue_denies:
  assumes "db iid = Some i" "assignedTo i = Some a" "a \<noteq> uid" "sol \<noteq> []"
  shows "resolveIssue trim now db udb iid uid (Some sol) spent
         = Inr (Failure 403 ''Not authorized to resolve this issue'', db, udb)"
  using assms by (simp add: resolveIssue_def)

text \<open>
  C2 (as amended). An accepted help response that names an issue and a requester by
  strings, run on its own, leaves the
  collection and the event log unchanged when the issue is missing, when the requester is
  not the owner of the issue, and when the issue is resolved or closed; in every other
  status (open, assigned, in progress) it stores the responder as \<open>assignedTo\<close> with
  status \<open>assigned\<close>. Direct assignment by the owner to an existing helper, named by a
  non-empty identifier, of an issue that is neither resolved nor closed stores that helper
  with status \<open>assigned\<close>. The method \<^verbatim>\<open>resolve\<close> sets the status to \<open>resolved\<close>
  whatever it was; \<^verbatim>\<open>resolveIssue\<close> with a non-empty solution stores the result of
  \<^verbatim>\<open>resolve\<close> when the caller is the assigned helper and a stored user, and answers 403
  and changes nothing when the issue is assigned to somebody else.
\<close>

theorem status_transitions:
  assumes "t_state t = Pending" and "t_issueId t = JStr iid" and "t_toUserId t = JStr requester"
  shows "(db iid = None \<longrightarrow>
            run_task now (db, out) t = ((db, out), t\<lparr>t_state := Done False\<rparr>))
       \<and> (\<forall>i. db iid = Some i \<longrightarrow>
            (requester \<noteq> postedBy i \<or> status i = Resolved \<or> status i = Closed \<longrightarrow>
               run_task now (db, out) t = ((db, out), t\<lparr>t_state := Done False\<rparr>))
          \<and> (requester = postedBy i \<and> status i \<noteq> Resolved \<and> status i \<noteq> Closed \<longrightarrow>
               run_task now (db, out) t
               = ((db(iid \<mapsto> i\<lparr>assignedTo := Some (userId (t_responder t)), status := Assigned\<rparr>),
                   out @ assigned_events now t),
                  t\<lparr>t_state := Done True\<rparr>))
          \<and> (status i \<noteq> Resolved \<and> status i \<noteq> Closed \<and> udb h = Some hu \<and> h \<noteq> [] \<longrightarrow>
               assignIssue db udb iid (postedBy i) (Some h)
               = (Success (i\<lparr>assignedTo := Some h, status := Assigned\<rparr>),
                  db(iid \<mapsto> i\<lparr>assignedTo := Some h, status := Assigned\<rparr>)))
          \<and> status (resolve trim now i uid sol spent) = Resolved
          \<and> (sol \<noteq> [] \<and> assignedTo i = Some uid \<and> udb uid = Some hu' \<longrightarrow>
               (\<exists>udb'. resolveIssue trim now db udb iid uid (Some sol) spent
                  = Inr (Success (resolve trim now i uid sol spent),
                         db(iid \<mapsto> resolve trim now i uid sol spent), udb')))
          \<and> (\<forall>a. sol \<noteq> [] \<and> assignedTo i = Some a \<and> a \<noteq> uid \<longrightarrow>
               resolveIssue trim now db udb iid uid (Some sol) spent
               = Inr (Failure 403 ''Not authorized to resolve this issue'', db, udb)))"
proof (intro conjI allI impI)
  assume "db iid = None"
  then show "run_task now (db, out) t = ((db, out), t\<lparr>t_state := Done False\<rparr>)"
    using run_task_missing assms by blast
next
  fix i assume "db iid = Some i"
    and "requester \<noteq> postedBy i \<or> status i = Resolved \<or> status i = Closed"
  then show "run_task now (db, out) t = ((db, out), t\<lparr>t_state := Done False\<rparr>)"
    using run_task_rejects [of db iid i requester t now out] assms by blast
next
  fix i assume "db iid = Some i"
    and "requester = postedBy i \<and> status i \<noteq> Resolved \<and> status i \<noteq> Closed"
  then show "run_task now (db, out) t
               = ((db(iid \<mapsto> i\<lparr>assignedTo := Some (userId (t_responder t)), status := Assigned\<rparr>),
                   out @ assigned_events now t),
                  t\<lparr>t_state := Done True\<rparr>)"
    using run_task_assigns [of db iid i t now out] assms by blast
next
  fix i assume "db iid = Some i"
    and "status i \<noteq> Resolved \<and> status i \<noteq> Closed \<and> udb h = Some hu \<and> h \<noteq> []"
  then show "assignIssue db udb iid (postedBy i) (Some h)
               = (Success (i\<lparr>assignedTo := Some h, status := Assigned\<rparr>),
                  db(iid \<mapsto> i\<lparr>assignedTo := Some h, status := Assigned\<rparr>))"
    using assignIssue_assigns [of db iid i "postedBy i" udb h hu] by blast
next
  fix i
  show "status (resolve trim now i uid sol spent) = Resolved"
    by (simp add: resolve_def)
next
  fix i assume "db iid = Some i" and "sol \<noteq> [] \<and> assignedTo i = Some uid \<and> udb uid = Some hu'"
  then show "\<exists>udb'. resolveIssue trim now db udb iid uid (Some sol) spent
                  = Inr (Success (resolve trim now i uid sol spent),
                         db(iid \<mapsto> resolve trim now i uid sol spent), udb')"
    using resolveIssue_resolves [of db iid i uid udb hu' sol trim now spent] by blast
next
  fix i a assume "db iid = Some i" and "sol \<noteq> [] \<and> assignedTo i = Some a \<and> a \<noteq> uid"
  then show "resolveIssue trim now db udb iid uid (Some sol) spent
               = Inr (Failure 403 ''Not authorized to resolve this issue'', db, udb)"
    using resolveIssue_denies [of db iid i a uid sol trim now udb spent] by blast
qed

text \<open>
  The claim as stated fails: an accepted help response moves an issue in progress back to
  \<open>assigned\<close>, and \<^verbatim>\<open>assignIssue\<close> moves a resolved issue back to \<open>assigned\<close>.
\<close>

theorem backward_transition_counterexample:
  "fst (fst (run_task 0 (Map.empty(''i1'' \<mapsto> example_issue\<lparr>status := In_progress, assignedTo := Some ''B''\<rparr>), [])
                (example_task ''c1'' ''A''))) ''i1''
     = Some (example_issue\<lparr>status := Assigned, assignedTo := Some ''A''\<rparr>)
   \<and> snd (assignIssue (Map.empty(''i1'' \<mapsto> example_issue\<lparr>status := Resolved, assignedTo := Some ''B''\<rparr>))
            (Map.empty(''A'' \<mapsto> example_user)) ''i1'' ''owner'' (Some ''A'')) ''i1''
     = Some (example_issue\<lparr>status := Assigned, assignedTo := Some ''A''\<rparr>)"
  by (simp add: run_task_def task_step_def example_task_def example_socket_def example_issue_def
      assignIssue_def Let_def)

theorem status_transitions_witness:
  "t_state (example_task ''c1'' ''A'') = Pending
   \<and> t_issueId (example_task ''c1'' ''A'') = JStr ''i1''
   \<and> t_toUserId (example_task ''c1'' ''A'') = JStr ''owner''
   \<and> (Map.empty(''i1'' \<mapsto> example_issue\<lparr>status := Resolved, assignedTo := Some ''B''\<rparr>)) ''i1''
       = Some (example_issue\<lparr>status := Resolved, assignedTo := Some ''B''\<rparr>)
   \<and> status (example_issue\<lparr>status := Resolved, assignedTo := Some ''B''\<rparr>) = Resolved
   \<and> run_task 0 (Map.empty(''i1'' \<mapsto> example_issue\<lparr>status := Resolved, assignedTo := Some ''B''\<rparr>), [])
         (example_task ''c1'' ''A'')
       = ((Map.empty(''i1'' \<mapsto> example_issue\<lparr>status := Resolved, assignedTo := Some ''B''\<rparr>), []),
          (example_task ''c1'' ''A'')\<lparr>t_state := Done False\<rparr>)
   \<and> ''rebooted'' \<noteq> [] \<and> ''B'' \<noteq> ''A''
   \<and> assignedTo (example_issue\<lparr>status := Resolved, assignedTo := Some ''B''\<rparr>) = Some ''B''
   \<and> resolveIssue id 0 (Map.empty(''i1'' \<mapsto> example_issue\<lparr>status := Resolved, assignedTo := Some ''B''\<rparr>))
         (Map.empty(''B'' \<mapsto> example_user)) ''i1'' ''A'' (Some ''rebooted'') None
       = Inr (Failure 403 ''Not authorized to resolve this issue'',
              Map.empty(''i1'' \<mapsto> example_issue\<lparr>status := Resolved, assignedTo := Some ''B''\<rparr>),
              Map.empty(''B'' \<mapsto> example_user))
   \<and> (Map.empty(''i1'' \<mapsto> example_issue\<lparr>status := In_progress, assignedTo := Some ''B''\<rparr>)) ''i1''
       = Some (example_issue\<lparr>status := In_progress, assignedTo := Some ''B''\<rparr>)
   \<and> ''owner'' = postedBy (example_issue\<lparr>status := In_progress, assignedTo := Some ''B''\<rparr>)
   \<and> status (example_issue\<lparr>status := In_progress, assignedTo := Some ''B''\<rparr>) \<noteq> Resolved
   \<and> status (example_issue\<lparr>status := In_progress, assignedTo := Some ''B''\<rparr>) \<noteq> Closed
   \<and> (Map.empty(''B'' \<mapsto> example_user)) ''B'' = Some example_user \<and> ''B'' \<noteq> []
   \<and> fst (fst (run_task 0 (Map.empty(''i1'' \<mapsto> example_issue\<lparr>status := In_progress, assignedTo := Some ''B''\<rparr>), [])
         (example_task ''c1'' ''A''))) ''i1''
       = Some (example_issue\<lparr>status := Assigned, assignedTo := Some ''A''\<rparr>)
   \<and> fst (assignIssue (Map.empty(''i1'' \<mapsto> example_issue\<lparr>status := In_progress, assignedTo := Some ''B''\<rparr>))
         (Map.empty(''B'' \<mapsto> example_user)) ''i1'' ''owner'' (Some ''B''))
       = Success (example_issue\<lparr>status := Assigned, assignedTo := Some ''B''\<rparr>)
   \<and> (\<exists>udb'. resolveIssue id 0 (Map.empty(''i1'' \<mapsto> example_issue\<lparr>status := In_progress, assignedTo := Some ''B''\<rparr>))
         (Map.empty(''B'' \<mapsto> example_user)) ''i1'' ''B'' (Some ''rebooted'') None
       = Inr (Success (resolve id 0 (example_issue\<lparr>status := In_progress, assignedTo := Some ''B''\<rparr>)
                         ''B'' ''rebooted'' None),
              Map.empty(''i1'' \<mapsto> resolve id 0 (example_issue\<lparr>status := In_progress, assignedTo := Some ''B''\<rparr>)
                         ''B'' ''rebooted'' None), udb'))"
proof -
  have h: "t_state (example_task ''c1'' ''A'') = Pending"
    "t_issueId (example_task ''c1'' ''A'') = JStr ''i1''"
    "t_toUserId (example_task ''c1'' ''A'') = JStr ''owner''"
    by (simp_all add: example_task_def)
  have r: "(Map.empty(''i1'' \<mapsto> example_issue\<lparr>status := Resolved, assignedTo := Some ''B''\<rparr>)) ''i1''
       = Some (example_issue\<lparr>status := Resolved, assignedTo := Some ''B''\<rparr>)"
    "status (example_issue\<lparr>status := Resolved, assignedTo := Some ''B''\<rparr>) = Resolved"
    "''rebooted'' \<noteq> []" "''B'' \<noteq> ''A''"
    "assignedTo (example_issue\<lparr>status := Resolved, assignedTo := Some ''B''\<rparr>) = Some ''B''"
    by simp_all
  have a: "run_task 0 (Map.empty(''i1'' \<mapsto> example_issue\<lparr>status := Resolved, assignedTo := Some ''B''\<rparr>), [])
         (example_task ''c1'' ''A'')
       = ((Map.empty(''i1'' \<mapsto> example_issue\<lparr>status := Resolved, assignedTo := Some ''B''\<rparr>), []),
          (example_task ''c1'' ''A'')\<lparr>t_state := Done False\<rparr>)
     \<and> resolveIssue id 0 (Map.empty(''i1'' \<mapsto> example_issue\<lparr>status := Resolved, assignedTo := Some ''B''\<rparr>))
         (Map.empty(''B'' \<mapsto> example_user)) ''i1'' ''A'' (Some ''rebooted'') None
       = Inr (Failure 403 ''Not authorized to resolve this issue'',
              Map.empty(''i1'' \<mapsto> example_issue\<lparr>status := Resolved, assignedTo := Some ''B''\<rparr>),
              Map.empty(''B'' \<mapsto> example_user))"
    using r status_transitions
      [OF h, of "Map.empty(''i1'' \<mapsto> example_issue\<lparr>status := Resolved, assignedTo := Some ''B''\<rparr>)"
          0 "[]" "Map.empty(''B'' \<mapsto> example_user)" "''B''" example_user id "''A''" "''rebooted''"
          None example_user]
    by blast
  have p: "(Map.empty(''i1'' \<mapsto> example_issue\<lparr>status := In_progress, assignedTo := Some ''B''\<rparr>)) ''i1''
       = Some (example_issue\<lparr>status := In_progress, assignedTo := Some ''B''\<rparr>)"
    "''owner'' = postedBy (example_issue\<lparr>status := In_progress, assignedTo := Some ''B''\<rparr>)"
    "status (example_issue\<lparr>status := In_progress, assignedTo := Some ''B''\<rparr>) \<noteq> Resolved"
    "status (example_issue\<lparr>status := In_progress, assignedTo := Some ''B''\<rparr>) \<noteq> Closed"
    "(Map.empty(''B'' \<mapsto> example_user)) ''B'' = Some example_user" "''B'' \<noteq> []"
    "assignedTo (example_issue\<lparr>status := In_progress, assignedTo := Some ''B''\<rparr>) = Some ''B''"
    by (simp_all add: example_issue_def)
  note t = status_transitions
      [OF h, of "Map.empty(''i1'' \<mapsto> example_issue\<lparr>status := In_progress, assignedTo := Some ''B''\<rparr>)"
          0 "[]" "Map.empty(''B'' \<mapsto> example_user)" "''B''" example_user id "''B''" "''rebooted''"
          None example_user]
  have b: "fst (fst (run_task 0 (Map.empty(''i1'' \<mapsto> example_issue\<lparr>status := In_progress, assignedTo := Some ''B''\<rparr>), [])
         (example_task ''c1'' ''A''))) ''i1''
       = Some (example_issue\<lparr>status := Assigned, assignedTo := Some ''A''\<rparr>)
     \<and> fst (assignIssue (Map.empty(''i1'' \<mapsto> example_issue\<lparr>status := In_progress, assignedTo := Some ''B''\<rparr>))
         (Map.empty(''B'' \<mapsto> example_user)) ''i1'' ''owner'' (Some ''B''))
       = Success (example_issue\<lparr>status := Assigned, assignedTo := Some ''B''\<rparr>)"
    using t by (simp add: example_task_def example_socket_def example_issue_def)
  have c: "\<exists>udb'. resolveIssue id 0 (Map.empty(''i1'' \<mapsto> example_issue\<lparr>status := In_progress, assignedTo := Some ''B''\<rparr>))
         (Map.empty(''B'' \<mapsto> example_user)) ''i1'' ''B'' (Some ''rebooted'') None
       = Inr (Success (resolve id 0 (example_issue\<lparr>status := In_progress, assignedTo := Some ''B''\<rparr>)
                         ''B'' ''rebooted'' None),
              Map.empty(''i1'' \<mapsto> resolve id 0 (example_issue\<lparr>status := In_progress, assignedTo := Some ''B''\<rparr>)
                         ''B'' ''rebooted'' None), udb')"
    using t by simp
  show ?thesis using h r a p(1-6) b c by simp
qed

subsection \<open>Concurrent help responses\<close>

lemma assigned_events_state: "assigned_events now (t\<lparr>t_state := x\<rparr>) = assigned_events now t"
  by (simp add: assigned_events_def)

text \<open>
  C1 (as amended). Two accepted help responses of different responders for the same stored
  issue, which is neither resolved nor closed, both naming its owner: in every order of
  their reads and saves, none fails: both tasks complete their save and send their
  \<^verbatim>\<open>issue:assigned\<close> events, and the issue ends with status \<open>assigned\<close>. Its
  \<open>assignedTo\<close> is the responder whose save came last, except when both reads came
  before both saves and the issue was assigned to that responder already: its save then
  writes no \<open>assignedTo\<close>, and the other responder is stored.
\<close>

theorem concurrent_accepts_both_succeed:
  assumes "db iid = Some i" and "status i \<noteq> Resolved" and "status i \<noteq> Closed"
    and "t_state ta = Pending" and "t_issueId ta = JStr iid" and "t_toUserId ta = JStr (postedBy i)"
    and "t_state tb = Pending" and "t_issueId tb = JStr iid" and "t_toUserId tb = JStr (postedBy i)"
    and "userId (t_responder ta) \<noteq> userId (t_responder tb)"
    and "sched \<in> set schedules"
  shows "\<exists>out w. run now sched ((db, []), ta, tb)
          = ((db(iid \<mapsto> i\<lparr>assignedTo := Some w, status := Assigned\<rparr>), out),
             ta\<lparr>t_state := Done True\<rparr>, tb\<lparr>t_state := Done True\<rparr>)
        \<and> set out = set (assigned_events now ta @ assigned_events now tb)
        \<and> w = (if sched ! 0 \<noteq> sched ! 1
                   \<and> assignedTo i = Some (userId (t_responder (if last sched then ta else tb)))
                then userId (t_responder (if last sched then tb else ta))
                else userId (t_responder (if last sched then ta else tb)))"
proof -
  consider "sched = [True, True, False, False]" | "sched = [True, False, True, False]"
    | "sched = [True, False, False, True]" | "sched = [False, True, True, False]"
    | "sched = [False, True, False, True]" | "sched = [False, False, True, True]"
    using assms(11) unfolding schedules_def by auto
  then show ?thesis
  proof cases
    case 1
    then show ?thesis using assms(1-10)
      by (cases i) (auto simp: task_step_def assigned_events_state)
  next
    case 2
    then show ?thesis using assms(1-10)
      by (cases i) (auto simp: task_step_def assigned_events_state)
  next
    case 3
    then show ?thesis using assms(1-10)
      by (cases i) (auto simp: task_step_def assigned_events_state)
  next
    case 4
    then show ?thesis using assms(1-10)
      by (cases i) (auto simp: task_step_def assigned_events_state)
  next
    case 5
    then show ?thesis using assms(1-10)
      by (cases i) (auto simp: task_step_def assigned_events_state)
  next
    case 6
    then show ?thesis using assms(1-10)
      by (cases i) (auto simp: task_step_def assigned_events_state)
  qed
qed

theorem concurrent_accepts_both_succeed_witness:
  "[True, False, True, False] \<in> set schedules
   \<and> userId (t_responder (example_task ''c1'' ''A'')) \<noteq> userId (t_responder (example_task ''c2'' ''B''))
   \<and> (\<exists>out. run 0 [True, False, True, False]
          ((Map.empty(''i1'' \<mapsto> example_issue\<lparr>status := Assigned, assignedTo := Some ''B''\<rparr>), []),
           example_task ''c1'' ''A'', example_task ''c2'' ''B'')
        = ((Map.empty(''i1'' \<mapsto> example_issue\<lparr>assignedTo := Some ''A'', status := Assigned\<rparr>), out),
           (example_task ''c1'' ''A'')\<lparr>t_state := Done True\<rparr>,
           (example_task ''c2'' ''B'')\<lparr>t_state := Done True\<rparr>))
   \<and> (\<exists>out. run 0 [True, False, True, False]
          ((Map.empty(''i1'' \<mapsto> example_issue), []),
           example_task ''c1'' ''A'', example_task ''c2'' ''B'')
        = ((Map.empty(''i1'' \<mapsto> example_issue\<lparr>assignedTo := Some ''B'', status := Assigned\<rparr>), out),
           (example_task ''c1'' ''A'')\<lparr>t_state := Done True\<rparr>,
           (example_task ''c2'' ''B'')\<lparr>t_state := Done True\<rparr>))"
proof -
  have t: "t_state (example_task ''c1'' ''A'') = Pending" "t_issueId (example_task ''c1'' ''A'') = JStr ''i1''"
    "t_state (example_task ''c2'' ''B'') = Pending" "t_issueId (example_task ''c2'' ''B'') = JStr ''i1''"
    "userId (t_responder (example_task ''c1'' ''A'')) \<noteq> userId (t_responder (example_task ''c2'' ''B''))"
    "[True, False, True, False] \<in> set schedules"
    "userId (t_responder (example_task ''c1'' ''A'')) = ''A''"
    "userId (t_responder (example_task ''c2'' ''B'')) = ''B''"
    by (simp_all add: example_task_def example_socket_def schedules_def)
  have o: "t_toUserId (example_task ''c1'' ''A'') = JStr ''owner''"
    "t_toUserId (example_task ''c2'' ''B'') = JStr ''owner''"
    "postedBy example_issue = ''owner''" "status example_issue = Open"
    "assignedTo example_issue = None"
    by (simp_all add: example_task_def example_issue_def)
  have a: "\<exists>out. run 0 [True, False, True, False]
          ((Map.empty(''i1'' \<mapsto> example_issue\<lparr>status := Assigned, assignedTo := Some ''B''\<rparr>), []),
           example_task ''c1'' ''A'', example_task ''c2'' ''B'')
        = ((Map.empty(''i1'' \<mapsto> example_issue\<lparr>assignedTo := Some ''A'', status := Assigned\<rparr>), out),
           (example_task ''c1'' ''A'')\<lparr>t_state := Done True\<rparr>,
           (example_task ''c2'' ''B'')\<lparr>t_state := Done True\<rparr>)"
    using concurrent_accepts_both_succeed
      [of "Map.empty(''i1'' \<mapsto> example_issue\<lparr>status := Assigned, assignedTo := Some ''B''\<rparr>)" "''i1''"
          "example_issue\<lparr>status := Assigned, assignedTo := Some ''B''\<rparr>" "example_task ''c1'' ''A''"
          "example_task ''c2'' ''B''" "[True, False, True, False]" 0] t o
    by auto
  have b: "\<exists>out. run 0 [True, False, True, False]
          ((Map.empty(''i1'' \<mapsto> example_issue), []),
           example_task ''c1'' ''A'', example_task ''c2'' ''B'')
        = ((Map.empty(''i1'' \<mapsto> example_issue\<lparr>assignedTo := Some ''B'', status := Assigned\<rparr>), out),
           (example_task ''c1'' ''A'')\<lparr>t_state := Done True\<rparr>,
           (example_task ''c2'' ''B'')\<lparr>t_state := Done True\<rparr>)"
    using concurrent_accepts_both_succeed
      [of "Map.empty(''i1'' \<mapsto> example_issue)" "''i1''" example_issue "example_task ''c1'' ''A''"
          "example_task ''c2'' ''B''" "[True, False, True, False]" 0] t o
    by auto
  show ?thesis using t(5,6) a b by blast
qed

text \<open>
  The claim as stated fails: with the two reads before the two saves, and also with one
  task run after the other, both responders are notified of their assignment and none
  fails; the issue keeps the second responder only.
\<close>

theorem concurrent_accepts_counterexample:
  "run 0 [True, False, True, False]
      ((Map.empty(''i1'' \<mapsto> example_issue), []), example_task ''c1'' ''A'', example_task ''c2'' ''B'')
   = ((Map.empty(''i1'' \<mapsto> example_issue\<lparr>assignedTo := Some ''B'', status := Assigned\<rparr>),
       assigned_events 0 (example_task ''c1'' ''A'') @ assigned_events 0 (example_task ''c2'' ''B'')),
      (example_task ''c1'' ''A'')\<lparr>t_state := Done True\<rparr>,
      (example_task ''c2'' ''B'')\<lparr>t_state := Done True\<rparr>)
   \<and> run 0 [True, True, False, False]
      ((Map.empty(''i1'' \<mapsto> example_issue), []), example_task ''c1'' ''A'', example_task ''c2'' ''B'')
   = ((Map.empty(''i1'' \<mapsto> example_issue\<lparr>assignedTo := Some ''B'', status := Assigned\<rparr>),
       assigned_events 0 (example_task ''c1'' ''A'') @ assigned_events 0 (example_task ''c2'' ''B'')),
      (example_task ''c1'' ''A'')\<lparr>t_state := Done True\<rparr>,
      (example_task ''c2'' ''B'')\<lparr>t_state := Done True\<rparr>)"
  by (simp add: task_step_def example_task_def example_socket_def example_issue_def assigned_events_def)

subsection \<open>Malformed payloads\<close>

lemma handlers_nullish:
  assumes "nullish data"
  shows "handleIssueUpdate now s data = Inl TypeError" "handleNewComment now s data = Inl TypeError"
    "handleIssueAssignment now s data = Inl TypeError" "handleIssueResolution now s data = Inl TypeError"
    "handleAvailabilityUpdate now s data = Inl TypeError" "handlePrivateMessage now s data = Inl TypeError"
    "handleHelpAsk now s data = Inl TypeError" "handleHelpRespond now s data = Inl TypeError"
    "handleTypingStart s data = Inl TypeError" "handleTypingStop s data = Inl TypeError"
  using assms
  by (simp_all add: handleIssueUpdate_def handleNewComment_def handleIssueAssignment_def
      handleIssueResolution_def handleAvailabilityUpdate_def handlePrivateMessage_def
      handleHelpAsk_def handleHelpRespond_def handleTypingStart_def handleTypingStop_def)


lemma on_event_cases:
  assumes "ev \<in> set inbound_events"
  shows "ev = ''issue:update'' \<or> ev = ''comment:add'' \<or> ev = ''issue:assign'' \<or> ev = ''issue:resolve''
       \<or> ev = ''availability:update'' \<or> ev = ''message:send'' \<or> ev = ''help:ask''
       \<or> ev = ''help:respond'' \<or> ev = ''typing:start'' \<or> ev = ''typing:stop''"
  using assms unfolding inbound_events_def by simp

lemma on_event_nullish:
  assumes "ev \<in> set inbound_events" "nullish data"
  shows "on_event now s ev data = Inl TypeError"
  using on_event_cases [OF assms(1)]
  by (elim disjE) (simp_all add: on_event_def no_task_def handlers_nullish [OF assms(2)])










end
